theory Spec2Isabelle
  imports Complex_Main
begin

section \<open>Avatar pipeline: job records, orchestration and status queries\<close>

text \<open>
  A shallow embedding of the backend of the avatar generator: the in-memory job registry
  of \<^verbatim>\<open>main.py\<close>, the four-stage orchestrator of \<^verbatim>\<open>pipeline.py\<close>, the
  polling loop of \<^verbatim>\<open>services/three_d_generator.py\<close>, the face check of
  \<^verbatim>\<open>services/face_detector.py\<close> and the upload validation of
  \<^verbatim>\<open>utils/validators.py\<close>.

  Python dictionaries with a fixed set of keys are records; a key that may be missing is
  an \<open>option\<close> field. The registry \<^verbatim>\<open>jobs\<close> is a map from job ids to job records.
  Exceptions are values. The stage services call remote providers and libraries, so what
  a service call returns (or raises) in a run is a parameter of the model.
\<close>

subsection \<open>Exceptions and stage outcomes\<close>

datatype exn =
    KeyError string
  | ValueError string
  | ZeroDivisionError
  | Exception string
  | HTTPException int string

text \<open>\<^verbatim>\<open>str(e)\<close>: a \<^verbatim>\<open>KeyError\<close> prints the \<^verbatim>\<open>repr\<close> of its key.\<close>

fun str_exn :: "exn \<Rightarrow> string" where
  "str_exn (KeyError k) = CHR 0x27 # k @ [CHR 0x27]"
| "str_exn (ValueError m) = m"
| "str_exn ZeroDivisionError = ''division by zero''"
| "str_exn (Exception m) = m"
| "str_exn (HTTPException code detail) = detail"

text \<open>
  What one service call does in a run: it returns a dictionary with the keys
  \<^verbatim>\<open>success\<close> and \<^verbatim>\<open>message\<close> (every return statement of the four services has
  both), or it raises an exception whose \<^verbatim>\<open>str\<close> is the given text.
\<close>

datatype outcome = Returns bool string | Raises string

record adapters =
  face_detector :: outcome
  cartoonizer :: outcome
  three_d_generator :: outcome
  mesh_optimizer :: outcome

datatype stage = FaceCheck | Cartoonize | Generate3D | OptimizeMesh

fun adapter_of :: "adapters \<Rightarrow> stage \<Rightarrow> outcome" where
  "adapter_of env FaceCheck = face_detector env"
| "adapter_of env Cartoonize = cartoonizer env"
| "adapter_of env Generate3D = three_d_generator env"
| "adapter_of env OptimizeMesh = mesh_optimizer env"

definition stage_order :: "stage list" where
  "stage_order = [FaceCheck, Cartoonize, Generate3D, OptimizeMesh]"

text \<open>A service invocation with the arguments the orchestrator passes.\<close>

datatype call =
    DetectFaceCall string
  | CartoonizeCall string string string
  | Generate3DCall string string int
  | OptimizeCall string string real string

fun call_stage :: "call \<Rightarrow> stage" where
  "call_stage (DetectFaceCall _) = FaceCheck"
| "call_stage (CartoonizeCall _ _ _) = Cartoonize"
| "call_stage (Generate3DCall _ _ _) = Generate3D"
| "call_stage (OptimizeCall _ _ _ _) = OptimizeMesh"

subsection \<open>The orchestrator (pipeline.py)\<close>

text \<open>
  The dictionary handed to the status callback: its \<^verbatim>\<open>message\<close>, its
  \<^verbatim>\<open>progress\<close> when given, and the path it carries when given
  (\<^verbatim>\<open>cartoon_path\<close>, \<^verbatim>\<open>model_path\<close>, \<^verbatim>\<open>stl_path\<close>). The face metrics
  spread into the dictionary after face detection are left out; their \<^verbatim>\<open>message\<close>
  key overrides the literal one and is kept.
\<close>

record status_data =
  message :: string
  data_progress :: "int option"
  data_path :: "string option"

text \<open>
  The dictionary \<^verbatim>\<open>process_avatar\<close> returns: \<^verbatim>\<open>success\<close>, \<^verbatim>\<open>error\<close> and
  \<^verbatim>\<open>output_files\<close> when present, and the per-step log \<^verbatim>\<open>steps\<close> (step name,
  success flag, message). Timestamps and durations are left out.
\<close>

record pipeline_result =
  success :: bool
  res_error :: "string option"
  res_output_files :: "(string \<times> string) list option"
  steps :: "(string \<times> bool \<times> string) list"

record pipeline_config =
  output_dir :: string
  target_height_mm :: real
  printer_profile :: string

type_synonym 's callback = "string \<Rightarrow> status_data \<Rightarrow> 's \<Rightarrow> 's"

definition cartoon_path :: "pipeline_config \<Rightarrow> string \<Rightarrow> string" where
  "cartoon_path cfg job_id = output_dir cfg @ ''/cartoonized/'' @ job_id @ ''_cartoon.png''"

definition model_3d_path :: "pipeline_config \<Rightarrow> string \<Rightarrow> string" where
  "model_3d_path cfg job_id = output_dir cfg @ ''/models_3d/'' @ job_id @ ''_model.glb''"

definition stl_path :: "pipeline_config \<Rightarrow> string \<Rightarrow> string" where
  "stl_path cfg job_id = output_dir cfg @ ''/stl_files/'' @ job_id @ ''_avatar.stl''"

text \<open>The early return of a step whose service returned \<^verbatim>\<open>success = False\<close>.\<close>

definition step_failed ::
  "'s callback \<Rightarrow> string \<Rightarrow> (string \<times> bool \<times> string) list \<Rightarrow> call list \<Rightarrow> 's
    \<Rightarrow> 's \<times> call list \<times> pipeline_result" where
  "step_failed cb msg steps0 calls s =
     (cb ''failed'' \<lparr>message = msg, data_progress = None, data_path = None\<rparr> s,
      calls,
      \<lparr>success = False, res_error = Some msg, res_output_files = None, steps = steps0\<rparr>)"

text \<open>The handler \<^verbatim>\<open>except Exception as e\<close> around the whole pipeline.\<close>

definition pipeline_error ::
  "'s callback \<Rightarrow> string \<Rightarrow> (string \<times> bool \<times> string) list \<Rightarrow> call list \<Rightarrow> 's
    \<Rightarrow> 's \<times> call list \<times> pipeline_result" where
  "pipeline_error cb e steps0 calls s =
     (let error_msg = ''Pipeline error: '' @ e in
      (cb ''failed'' \<lparr>message = error_msg, data_progress = None, data_path = None\<rparr> s,
       calls,
       \<lparr>success = False, res_error = Some error_msg, res_output_files = None, steps = steps0\<rparr>))"

text \<open>Step 4, mesh optimization, and the final result.\<close>

definition step_optimization ::
  "pipeline_config \<Rightarrow> adapters \<Rightarrow> 's callback \<Rightarrow> string \<Rightarrow>
    (string \<times> bool \<times> string) list \<Rightarrow> call list \<Rightarrow> 's \<Rightarrow> 's \<times> call list \<times> pipeline_result" where
  "step_optimization cfg env cb job_id steps0 calls s =
     (let s1 = cb ''optimization''
                 \<lparr>message = ''Optimizing mesh for printing...'', data_progress = Some 80,
                  data_path = None\<rparr> s;
          calls1 = calls @ [OptimizeCall (model_3d_path cfg job_id) (stl_path cfg job_id)
                              (target_height_mm cfg) (printer_profile cfg)]
      in case mesh_optimizer env of
           Raises e \<Rightarrow> pipeline_error cb e steps0 calls1 s1
         | Returns ok msg \<Rightarrow>
             let steps1 = steps0 @ [(''optimization'', ok, msg)] in
             if \<not> ok then step_failed cb msg steps1 calls1 s1
             else
               (cb ''completed''
                  \<lparr>message = ''Avatar ready for printing!'', data_progress = Some 100,
                   data_path = Some (stl_path cfg job_id)\<rparr> s1,
                calls1,
                \<lparr>success = True, res_error = None,
                 res_output_files = Some [(''cartoon'', cartoon_path cfg job_id),
                                          (''model_3d'', model_3d_path cfg job_id),
                                          (''stl'', stl_path cfg job_id)],
                 steps = steps1\<rparr>))"

text \<open>Step 3, 3D generation, called with \<^verbatim>\<open>timeout=300\<close>.\<close>

definition step_3d_generation ::
  "pipeline_config \<Rightarrow> adapters \<Rightarrow> 's callback \<Rightarrow> string \<Rightarrow>
    (string \<times> bool \<times> string) list \<Rightarrow> call list \<Rightarrow> 's \<Rightarrow> 's \<times> call list \<times> pipeline_result" where
  "step_3d_generation cfg env cb job_id steps0 calls s =
     (let s1 = cb ''3d_generation''
                 \<lparr>message = ''Generating 3D model (2-3 minutes)...'', data_progress = Some 40,
                  data_path = None\<rparr> s;
          calls1 = calls @ [Generate3DCall (cartoon_path cfg job_id) (model_3d_path cfg job_id) 300]
      in case three_d_generator env of
           Raises e \<Rightarrow> pipeline_error cb e steps0 calls1 s1
         | Returns ok msg \<Rightarrow>
             let steps1 = steps0 @ [(''3d_generation'', ok, msg)] in
             if \<not> ok then step_failed cb msg steps1 calls1 s1
             else
               step_optimization cfg env cb job_id steps1 calls1
                 (cb ''3d_generation''
                    \<lparr>message = ''3D model generated!'', data_progress = Some 80,
                     data_path = Some (model_3d_path cfg job_id)\<rparr> s1))"

text \<open>Step 2, cartoonization, called on the uploaded photo with \<^verbatim>\<open>style="pixar"\<close>.\<close>

definition step_cartoonization ::
  "pipeline_config \<Rightarrow> adapters \<Rightarrow> 's callback \<Rightarrow> string \<Rightarrow> string \<Rightarrow>
    (string \<times> bool \<times> string) list \<Rightarrow> call list \<Rightarrow> 's \<Rightarrow> 's \<times> call list \<times> pipeline_result" where
  "step_cartoonization cfg env cb input_path job_id steps0 calls s =
     (let s1 = cb ''cartoonization''
                 \<lparr>message = ''Creating Pixar-style cartoon (30-60s)...'', data_progress = Some 20,
                  data_path = None\<rparr> s;
          calls1 = calls @ [CartoonizeCall input_path (cartoon_path cfg job_id) ''pixar'']
      in case cartoonizer env of
           Raises e \<Rightarrow> pipeline_error cb e steps0 calls1 s1
         | Returns ok msg \<Rightarrow>
             let steps1 = steps0 @ [(''cartoonization'', ok, msg)] in
             if \<not> ok then step_failed cb msg steps1 calls1 s1
             else
               step_3d_generation cfg env cb job_id steps1 calls1
                 (cb ''cartoonization''
                    \<lparr>message = ''Cartoonization complete!'', data_progress = Some 40,
                     data_path = Some (cartoon_path cfg job_id)\<rparr> s1))"

text \<open>
  \<^verbatim>\<open>AvatarPipeline.process_avatar\<close>: step 1, face detection, then the other steps.
  The state \<open>s\<close> is whatever the status callback acts on; the function returns the state
  after the last callback, the service calls made, in order, and the result dictionary.
\<close>

definition process_avatar ::
  "pipeline_config \<Rightarrow> adapters \<Rightarrow> 's callback \<Rightarrow> string \<Rightarrow> string \<Rightarrow> 's
    \<Rightarrow> 's \<times> call list \<times> pipeline_result" where
  "process_avatar cfg env cb input_path job_id s =
     (let s1 = cb ''face_detection''
                 \<lparr>message = ''Detecting face...'', data_progress = Some 0, data_path = None\<rparr> s;
          calls1 = [DetectFaceCall input_path]
      in case face_detector env of
           Raises e \<Rightarrow> pipeline_error cb e [] calls1 s1
         | Returns ok msg \<Rightarrow>
             let steps1 = [(''face_detection'', ok, msg)] in
             if \<not> ok then step_failed cb msg steps1 calls1 s1
             else
               step_cartoonization cfg env cb input_path job_id steps1 calls1
                 (cb ''face_detection''
                    \<lparr>message = msg, data_progress = Some 20, data_path = None\<rparr> s1))"

subsection \<open>The job registry and the background task (main.py)\<close>

record job =
  job_id :: string
  status :: string
  upload_path :: string
  filename :: string
  created_at :: string
  current_step :: "string option"
  last_update :: "status_data option"
  result :: "pipeline_result option"
  output_files :: "(string \<times> string) list option"
  error :: "string option"

type_synonym jobs = "string \<rightharpoonup> job"

definition update_job_status :: "string \<Rightarrow> string \<Rightarrow> status_data \<Rightarrow> jobs \<Rightarrow> jobs" where
  "update_job_status jid step data js =
     (case js jid of
        None \<Rightarrow> js
      | Some j \<Rightarrow> js(jid \<mapsto> j\<lparr>current_step := Some step, last_update := Some data\<rparr>))"

text \<open>The first locked block of the task: \<^verbatim>\<open>jobs[job_id]["status"] = "processing"\<close>.\<close>

definition mark_processing :: "string \<Rightarrow> jobs \<Rightarrow> exn + jobs" where
  "mark_processing jid js =
     (case js jid of
        None \<Rightarrow> Inl (KeyError jid)
      | Some j \<Rightarrow> Inr (js(jid \<mapsto> j\<lparr>status := ''processing''\<rparr>)))"

text \<open>
  The last locked block of the task. Its assignments run one by one, so an exception
  leaves the earlier ones in place: the function returns the registry as it is when the
  block ends or raises, with the exception if there is one.
\<close>

definition record_result :: "string \<Rightarrow> pipeline_result \<Rightarrow> jobs \<Rightarrow> exn option \<times> jobs" where
  "record_result jid res js =
     (case js jid of
        None \<Rightarrow> (Some (KeyError jid), js)
      | Some j \<Rightarrow>
          if success res then
            (case res_output_files res of
               None \<Rightarrow>
                 (Some (KeyError ''output_files''),
                  js(jid \<mapsto> j\<lparr>status := ''completed'', result := Some res\<rparr>))
             | Some files \<Rightarrow>
                 (None,
                  js(jid \<mapsto> j\<lparr>status := ''completed'', result := Some res,
                              output_files := Some files\<rparr>)))
          else
            (None,
             js(jid \<mapsto> j\<lparr>status := ''failed'',
                         error := Some (case res_error res of
                                          None \<Rightarrow> ''Unknown error'' | Some e \<Rightarrow> e)\<rparr>)))"

text \<open>The handler of the task: \<^verbatim>\<open>except Exception as e\<close>.\<close>

definition handle_exception :: "string \<Rightarrow> exn \<Rightarrow> jobs \<Rightarrow> exn + jobs" where
  "handle_exception jid e js =
     (case js jid of
        None \<Rightarrow> Inl (KeyError jid)
      | Some j \<Rightarrow> Inr (js(jid \<mapsto> j\<lparr>status := ''failed'', error := Some (str_exn e)\<rparr>)))"

text \<open>
  \<^verbatim>\<open>process_avatar_background\<close>: the registry after the task and the service calls it
  made, or the exception that leaves the task.
\<close>

definition process_avatar_background ::
  "pipeline_config \<Rightarrow> adapters \<Rightarrow> string \<Rightarrow> string \<Rightarrow> jobs \<Rightarrow> exn + (jobs \<times> call list)" where
  "process_avatar_background cfg env jid input_path js =
     (case mark_processing jid js of
        Inl e \<Rightarrow> map_sum id (\<lambda>js'. (js', [])) (handle_exception jid e js)
      | Inr js1 \<Rightarrow>
          (case process_avatar cfg env (update_job_status jid) input_path jid js1 of
             (js2, calls, res) \<Rightarrow>
               (case record_result jid res js2 of
                  (None, js3) \<Rightarrow> Inr (js3, calls)
                | (Some e, js3) \<Rightarrow>
                    map_sum id (\<lambda>js'. (js', calls)) (handle_exception jid e js3))))"

subsection \<open>Status queries (main.py)\<close>

text \<open>\<^verbatim>\<open>d.get(key, default)\<close> on a dictionary given as an association list.\<close>

definition dict_get :: "('k \<times> 'v) list \<Rightarrow> 'k \<Rightarrow> 'v \<Rightarrow> 'v" where
  "dict_get d k dflt = (case map_of d k of None \<Rightarrow> dflt | Some v \<Rightarrow> v)"

definition progress_map :: "(string \<times> int) list" where
  "progress_map =
     [(''pending'', 0), (''face_detection'', 10), (''cartoonization'', 30),
      (''3d_generation'', 60), (''optimization'', 85), (''completed'', 100), (''failed'', 0)]"

text \<open>The response model \<^verbatim>\<open>JobStatus\<close>; its fields carry the prefix \<open>js_\<close> here.\<close>

record JobStatus =
  js_job_id :: string
  js_status :: string
  js_progress :: int
  js_message :: string
  js_current_step :: "string option"
  js_output_files :: "(string \<times> string) list option"
  js_error :: "string option"

text \<open>
  \<^verbatim>\<open>progress_map.get(current_step, progress_map.get(status, 0))\<close>, then the override
  for a completed job. A job without the key \<^verbatim>\<open>current_step\<close> looks up \<^verbatim>\<open>None\<close>,
  which is not a key of the table.

  \<^verbatim>\<open>get_status\<close> reads the fields of the job record it found under the lock; the
  model takes the reads together, as one look at the record.
\<close>

definition calc_progress :: "string option \<Rightarrow> string \<Rightarrow> int" where
  "calc_progress cur st =
     (let by_status = dict_get progress_map st 0;
          progress = (case cur of None \<Rightarrow> by_status
                      | Some c \<Rightarrow> dict_get progress_map c by_status)
      in if st = ''completed'' then 100 else progress)"

definition get_status :: "jobs \<Rightarrow> string \<Rightarrow> exn + JobStatus" where
  "get_status js jid =
     (case js jid of
        None \<Rightarrow> Inl (HTTPException 404 ''Job not found'')
      | Some j \<Rightarrow>
          Inr \<lparr>js_job_id = jid,
               js_status = status j,
               js_progress = calc_progress (current_step j) (status j),
               js_message = (case last_update j of
                               None \<Rightarrow> ''Status: '' @ status j
                             | Some d \<Rightarrow> message d),
               js_current_step = current_step j,
               js_output_files = output_files j,
               js_error = error j\<rparr>)"

subsection \<open>Fetching outputs (main.py)\<close>










subsection \<open>Upload validation (utils/validators.py)\<close>

text \<open>
  What \<^verbatim>\<open>Image.open\<close> reports about a file: its size and mode. What the validator
  observes of a saved file: the lower-cased suffix of its path, its size in bytes, and the
  image inside (\<open>Inl\<close> with the text of the exception when it cannot be opened).
\<close>

record image_info =
  img_width :: int
  img_height :: int
  img_mode :: string

record file_info =
  suffix_lower :: string
  size_bytes :: nat
  image :: "string + image_info"

definition ALLOWED_IMAGE_EXTENSIONS :: "string set" where
  "ALLOWED_IMAGE_EXTENSIONS = {''.jpg'', ''.jpeg'', ''.png''}"

definition MAX_FILE_SIZE_MB :: int where
  "MAX_FILE_SIZE_MB = 10"

definition MIN_IMAGE_DIMENSION :: int where
  "MIN_IMAGE_DIMENSION = 512"

definition MAX_IMAGE_DIMENSION :: int where
  "MAX_IMAGE_DIMENSION = 4096"

text \<open>
  \<^verbatim>\<open>validate_image_file\<close>. The numbers interpolated into the messages are left out
  of the message texts.
\<close>

definition validate_image_file :: "bool \<Rightarrow> file_info \<Rightarrow> bool \<Rightarrow> bool \<Rightarrow> bool \<times> string" where
  "validate_image_file exists info check_size check_dimensions =
     (if \<not> exists then (False, ''File does not exist'')
      else if suffix_lower info \<notin> ALLOWED_IMAGE_EXTENSIONS then (False, ''Invalid file type'')
      else if check_size \<and> real (size_bytes info) / (1024 * 1024) > of_int MAX_FILE_SIZE_MB
        then (False, ''File too large'')
      else
        (case image info of
           Inl e \<Rightarrow> (False, ''Failed to read image: '' @ e)
         | Inr img \<Rightarrow>
             if check_dimensions \<and>
                (img_width img < MIN_IMAGE_DIMENSION \<or> img_height img < MIN_IMAGE_DIMENSION)
               then (False, ''Image too small'')
             else if check_dimensions \<and>
                (img_width img > MAX_IMAGE_DIMENSION \<or> img_height img > MAX_IMAGE_DIMENSION)
               then (False, ''Image too large'')
             else if img_mode img \<notin> {''RGB'', ''RGBA''}
               then (False, ''Unsupported image mode: '' @ img_mode img @ '' (need RGB or RGBA)'')
             else (True, ''Image file is valid'')))"

text \<open>
  \<^verbatim>\<open>sanitize_filename\<close>, on ASCII names (\<^verbatim>\<open>isalnum\<close> is the ASCII test here).
\<close>

definition isalnum :: "char \<Rightarrow> bool" where
  "isalnum c =
     (let n = (of_char c :: nat)
      in (48 \<le> n \<and> n \<le> 57) \<or> (65 \<le> n \<and> n \<le> 90) \<or> (97 \<le> n \<and> n \<le> 122))"

definition sanitize_filename :: "string \<Rightarrow> string" where
  "sanitize_filename name =
     (let name1 = map (\<lambda>c. if c = CHR ''/'' \<or> c = CHR 0x5C then CHR ''_'' else c) name;
          sanitized = map (\<lambda>c. if isalnum c \<or> c \<in> {CHR ''.'', CHR ''-'', CHR ''_''}
                                then c else CHR ''_'') name1
      in if CHR ''.'' \<notin> set sanitized then sanitized @ ''.jpg'' else sanitized)"

subsection \<open>Submission (main.py)\<close>

text \<open>
  One upload request: the identifier \<^verbatim>\<open>uuid.uuid4()\<close> returns for it, the name and
  length of the uploaded content, whether writing the file raises, what the validator
  then observes of the saved file, and the modification time read back for
  \<^verbatim>\<open>created_at\<close>.
\<close>

record upload_file =
  uuid4 :: string
  up_filename :: string
  content_len :: nat
  write_error :: "string option"
  saved :: file_info
  st_mtime :: string

record upload_response =
  ur_job_id :: string
  ur_message :: string
  ur_status :: string

definition OUTPUT_DIR :: string where
  "OUTPUT_DIR = ''output''"

text \<open>
  \<^verbatim>\<open>upload_photo\<close> with \<^verbatim>\<open>MAX_UPLOAD_SIZE_MB = max_mb\<close>, on the registry and the set
  of existing files. On success it returns the response and the task handed to
  \<^verbatim>\<open>background_tasks.add_task\<close> (job id and input path), which the framework runs
  after the response has been sent.
\<close>

definition upload_photo ::
  "int \<Rightarrow> upload_file \<Rightarrow> jobs \<times> string set
    \<Rightarrow> (exn + upload_response \<times> (string \<times> string)) \<times> (jobs \<times> string set)" where
  "upload_photo max_mb file w =
     (let js = fst w; fs = snd w;
          jid = uuid4 file;
          file_size = real (content_len file) / (1024 * 1024)
      in if file_size > of_int max_mb then (Inl (HTTPException 413 ''File too large''), (js, fs))
         else
           let fname = sanitize_filename (up_filename file);
               path = OUTPUT_DIR @ ''/uploads/'' @ jid @ ''_'' @ fname
           in case write_error file of
                Some e \<Rightarrow> (Inl (HTTPException 500 (''Upload error: '' @ e)), (js, fs - {path}))
              | None \<Rightarrow>
                  let fs1 = insert path fs in
                  if path \<notin> fs1 then
                    (Inl (HTTPException 500 ''Failed to save uploaded file''), (js, fs1))
                  else
                    (case validate_image_file (path \<in> fs1) (saved file) False True of
                       (False, msg) \<Rightarrow> (Inl (HTTPException 400 msg), (js, fs1 - {path}))
                     | (True, msg) \<Rightarrow>
                         (Inr (\<lparr>ur_job_id = jid,
                                ur_message = ''Photo uploaded successfully. Processing started.'',
                                ur_status = ''pending''\<rparr>,
                               (jid, path)),
                          (js(jid \<mapsto> \<lparr>job_id = jid, status = ''pending'', upload_path = path,
                                       filename = fname, created_at = st_mtime file,
                                       current_step = None, last_update = None, result = None,
                                       output_files = None, error = None\<rparr>),
                           fs1))))"

subsection \<open>The running service\<close>

text \<open>
  The service as a transition system whose steps are the requests and the blocks the
  background tasks run under \<^verbatim>\<open>job_lock\<close>. A task is scheduled by an upload and then
  runs \<^verbatim>\<open>process_avatar_background\<close>: it marks the job as processing, makes its
  status callbacks one by one, and records the result. The callbacks and the result of a
  run are those of \<^verbatim>\<open>process_avatar\<close> for the outcomes the services have in that run;
  they are computed with a callback that records its arguments.

  The identifier of an upload is one that no job has (\<^verbatim>\<open>uuid4\<close> identifiers are taken
  to be unique). Files appear and disappear at any time (the services write their
  outputs); status and fetch requests do not change the state.
\<close>

datatype task =
    Scheduled string
  | Running "(string \<times> status_data) list" pipeline_result

record system =
  registry :: jobs
  pool :: "string \<rightharpoonup> task"
  files :: "string set"

definition record_event :: "(string \<times> status_data) list callback" where
  "record_event stp d evs = evs @ [(stp, d)]"

definition init :: system where
  "init = \<lparr>registry = Map.empty, pool = Map.empty, files = {}\<rparr>"

inductive step :: "pipeline_config \<Rightarrow> int \<Rightarrow> system \<Rightarrow> system \<Rightarrow> bool"
  for cfg :: pipeline_config and max_mb :: int where
  upload_accepted:
    "uuid4 file \<notin> dom (registry s) \<Longrightarrow>
     upload_photo max_mb file (registry s, files s) = (Inr (resp, (jid, path)), (js', fs')) \<Longrightarrow>
     step cfg max_mb s \<lparr>registry = js', pool = (pool s)(jid \<mapsto> Scheduled path), files = fs'\<rparr>"
| upload_rejected:
    "upload_photo max_mb file (registry s, files s) = (Inl e, (js', fs')) \<Longrightarrow>
     step cfg max_mb s \<lparr>registry = js', pool = pool s, files = fs'\<rparr>"
| task_start:
    "pool s jid = Some (Scheduled path) \<Longrightarrow>
     mark_processing jid (registry s) = Inr js' \<Longrightarrow>
     process_avatar cfg env record_event path jid [] = (evs, calls, res) \<Longrightarrow>
     step cfg max_mb s (s\<lparr>registry := js', pool := (pool s)(jid \<mapsto> Running evs res)\<rparr>)"
| task_callback:
    "pool s jid = Some (Running ((stp, d) # evs) res) \<Longrightarrow>
     step cfg max_mb s (s\<lparr>registry := update_job_status jid stp d (registry s),
                          pool := (pool s)(jid \<mapsto> Running evs res)\<rparr>)"
| task_finish:
    "pool s jid = Some (Running [] res) \<Longrightarrow>
     record_result jid res (registry s) = (None, js') \<Longrightarrow>
     step cfg max_mb s (s\<lparr>registry := js', pool := (pool s)(jid := None)\<rparr>)"
| task_finish_handler:
    "pool s jid = Some (Running [] res) \<Longrightarrow>
     record_result jid res (registry s) = (Some e, js1) \<Longrightarrow>
     handle_exception jid e js1 = Inr js' \<Longrightarrow>
     step cfg max_mb s (s\<lparr>registry := js', pool := (pool s)(jid := None)\<rparr>)"
| files_change:
    "step cfg max_mb s (s\<lparr>files := fs'\<rparr>)"
| query:
    "step cfg max_mb s s"

inductive reachable :: "pipeline_config \<Rightarrow> int \<Rightarrow> system \<Rightarrow> bool"
  for cfg :: pipeline_config and max_mb :: int where
  reachable_init: "reachable cfg max_mb init"
| reachable_step: "reachable cfg max_mb s \<Longrightarrow> step cfg max_mb s s' \<Longrightarrow> reachable cfg max_mb s'"

text \<open>The order of the status values: pending, then processing, then the two terminal ones.\<close>

definition status_rank :: "string \<Rightarrow> nat" where
  "status_rank st =
     (if st = ''pending'' then 0
      else if st = ''processing'' then 1
      else if st = ''completed'' \<or> st = ''failed'' then 2
      else 3)"

definition terminal :: "string \<Rightarrow> bool" where
  "terminal st = (st = ''completed'' \<or> st = ''failed'')"

text \<open>
  The invariant of the service. A job with a scheduled task is pending and untouched; a
  job with a running task is processing, and the result the task will record is well
  formed; a job without a task is completed with its three output files and no error, or
  failed with an error and no output files. Only jobs have tasks.
\<close>

definition result_ok :: "pipeline_result \<Rightarrow> bool" where
  "result_ok res =
     (if success res
      then (case res_output_files res of
              None \<Rightarrow> False
            | Some fl \<Rightarrow> map fst fl = [''cartoon'', ''model_3d'', ''stl''])
      else res_error res \<noteq> None)"

definition job_ok :: "task option \<Rightarrow> job \<Rightarrow> bool" where
  "job_ok t j =
     (case t of
        Some (Scheduled p) \<Rightarrow>
          status j = ''pending'' \<and> current_step j = None \<and> output_files j = None \<and> error j = None
      | Some (Running evs res) \<Rightarrow>
          status j = ''processing'' \<and> output_files j = None \<and> error j = None \<and> result_ok res
      | None \<Rightarrow>
          (status j = ''completed'' \<and> error j = None \<and>
           (case output_files j of
              None \<Rightarrow> False
            | Some fl \<Rightarrow> map fst fl = [''cartoon'', ''model_3d'', ''stl'']))
          \<or> (status j = ''failed'' \<and> error j \<noteq> None \<and> output_files j = None))"

definition system_ok :: "system \<Rightarrow> bool" where
  "system_ok s =
     (\<forall>jid. case registry s jid of
              None \<Rightarrow> pool s jid = None
            | Some j \<Rightarrow> job_ok (pool s jid) j)"

subsection \<open>Face check (services/face_detector.py)\<close>

text \<open>
  What the detector sees: the shape of the image \<^verbatim>\<open>cv2.imread\<close> returns (\<open>None\<close>
  when the file cannot be read) and the faces the face mesh reports, each a list of
  landmarks with normalised coordinates. Coordinates and the area ratio are real numbers
  here, where the code has floating-point numbers.
\<close>

record landmark =
  lm_x :: real
  lm_y :: real
  lm_z :: real

record scene =
  image_shape :: "(int \<times> int) option"
  multi_face_landmarks :: "landmark list list"

record landmark_px =
  px_x :: int
  px_y :: int
  px_z :: real

record bounding_box =
  x_min :: int
  y_min :: int
  x_max :: int
  y_max :: int
  bb_width :: int
  bb_height :: int

record face_result =
  fr_success :: bool
  fr_face_found :: bool
  fr_face_count :: nat
  fr_landmarks :: "landmark_px list option"
  fr_bounding_box :: "bounding_box option"
  fr_face_area_ratio :: "real option"
  fr_image_dimensions :: "(int \<times> int) option"
  fr_message :: string

text \<open>\<^verbatim>\<open>int(x)\<close> on a float: truncation towards zero.\<close>

definition py_int :: "real \<Rightarrow> int" where
  "py_int x = (if 0 \<le> x then \<lfloor>x\<rfloor> else \<lceil>x\<rceil>)"

text \<open>\<^verbatim>\<open>min\<close> and \<^verbatim>\<open>max\<close> of a list raise \<^verbatim>\<open>ValueError\<close> on the empty list.\<close>

definition py_min :: "int list \<Rightarrow> exn + int" where
  "py_min xs = (case xs of [] \<Rightarrow> Inl (ValueError ''min() arg is an empty sequence'')
                | x # rest \<Rightarrow> Inr (foldl min x rest))"

definition py_max :: "int list \<Rightarrow> exn + int" where
  "py_max xs = (case xs of [] \<Rightarrow> Inl (ValueError ''max() arg is an empty sequence'')
                | x # rest \<Rightarrow> Inr (foldl max x rest))"

definition to_px :: "int \<Rightarrow> int \<Rightarrow> landmark \<Rightarrow> landmark_px" where
  "to_px width height l =
     \<lparr>px_x = py_int (lm_x l * of_int width), px_y = py_int (lm_y l * of_int height),
      px_z = lm_z l\<rparr>"

definition calc_bounding_box :: "landmark_px list \<Rightarrow> exn + bounding_box" where
  "calc_bounding_box lms =
     (case (py_min (map px_x lms), py_min (map px_y lms),
            py_max (map px_x lms), py_max (map px_y lms)) of
        (Inr xmin, Inr ymin, Inr xmax, Inr ymax) \<Rightarrow>
          Inr \<lparr>x_min = xmin, y_min = ymin, x_max = xmax, y_max = ymax,
               bb_width = xmax - xmin, bb_height = ymax - ymin\<rparr>
      | (Inl e, _) \<Rightarrow> Inl e
      | (_, Inl e, _) \<Rightarrow> Inl e
      | (_, _, Inl e, _) \<Rightarrow> Inl e
      | (_, _, _, Inl e) \<Rightarrow> Inl e)"

definition area_ratio :: "bounding_box \<Rightarrow> int \<Rightarrow> int \<Rightarrow> real" where
  "area_ratio bb width height =
     real_of_int (bb_width bb * bb_height bb) / real_of_int (width * height)"

definition detect_face :: "scene \<Rightarrow> exn + face_result" where
  "detect_face sc =
     (case image_shape sc of
        None \<Rightarrow> Inl (ValueError ''Cannot read image'')
      | Some (height, width) \<Rightarrow>
          (case multi_face_landmarks sc of
             [] \<Rightarrow>
               Inr \<lparr>fr_success = False, fr_face_found = False, fr_face_count = 0,
                    fr_landmarks = None, fr_bounding_box = None, fr_face_area_ratio = None,
                    fr_image_dimensions = None,
                    fr_message = ''No face detected in image. Please use a clear front-facing portrait.''\<rparr>
           | face_landmarks # _ \<Rightarrow>
               let landmarks_px = map (to_px width height) face_landmarks in
               (case calc_bounding_box landmarks_px of
                  Inl e \<Rightarrow> Inl e
                | Inr bb \<Rightarrow>
                    if width * height = 0 then Inl ZeroDivisionError
                    else
                      let face_area_ratio = area_ratio bb width height in
                      if face_area_ratio < 0.05 then
                        Inr \<lparr>fr_success = False, fr_face_found = True, fr_face_count = 1,
                             fr_landmarks = Some landmarks_px, fr_bounding_box = Some bb,
                             fr_face_area_ratio = None, fr_image_dimensions = None,
                             fr_message = ''Face is too small in image. Please use a closer portrait photo.''\<rparr>
                      else if face_area_ratio > 0.9 then
                        Inr \<lparr>fr_success = False, fr_face_found = True, fr_face_count = 1,
                             fr_landmarks = Some landmarks_px, fr_bounding_box = Some bb,
                             fr_face_area_ratio = None, fr_image_dimensions = None,
                             fr_message = ''Face is too close. Please use a photo with some space around the face.''\<rparr>
                      else
                        Inr \<lparr>fr_success = True, fr_face_found = True, fr_face_count = 1,
                             fr_landmarks = Some landmarks_px, fr_bounding_box = Some bb,
                             fr_face_area_ratio = Some face_area_ratio,
                             fr_image_dimensions = Some (width, height),
                             fr_message = ''Face detected successfully!''\<rparr>)))"

text \<open>The face check as the first service of the orchestrator.\<close>

definition face_outcome :: "scene \<Rightarrow> outcome" where
  "face_outcome sc =
     (case detect_face sc of
        Inl e \<Rightarrow> Raises (str_exn e)
      | Inr r \<Rightarrow> Returns (fr_success r) (fr_message r))"

subsection \<open>Waiting for the 3D model (services/three_d_generator.py)\<close>

text \<open>
  The dictionary \<^verbatim>\<open>_check_status\<close> returns; it always has the key \<^verbatim>\<open>status\<close>, and
  the function never raises.
\<close>

record status_result =
  sr_status :: string
  sr_model_url :: "string option"
  sr_thumbnail_url :: "string option"
  sr_error :: "string option"

datatype task_response = TaskCreated string | TaskFailed string

text \<open>
  The provider and the clock in one run: whether reading the image raises, what
  \<^verbatim>\<open>_create_task\<close> returns, what the \<open>k\<close>-th call of \<^verbatim>\<open>_check_status\<close> returns and
  how long it takes, by how much the \<open>k\<close>-th \<^verbatim>\<open>time.sleep\<close> oversleeps, and whether
  downloading the model from a URL raises.
\<close>

record provider =
  read_error :: "string option"
  create_task :: task_response
  check_status :: "nat \<Rightarrow> status_result"
  check_cost :: "nat \<Rightarrow> real"
  sleep_lag :: "nat \<Rightarrow> real"
  download_error :: "string option \<Rightarrow> string option"

datatype event = CheckStatus | Sleep int

record world =
  now :: real
  trace :: "event list"

record model_result =
  mr_success :: bool
  mr_message :: string
  mr_task_id :: "string option"
  mr_output_path :: "string option"
  mr_model_url :: "string option"
  mr_thumbnail_url :: "string option"

definition do_check :: "provider \<Rightarrow> nat \<Rightarrow> world \<Rightarrow> world" where
  "do_check env k w = w\<lparr>now := now w + check_cost env k, trace := trace w @ [CheckStatus]\<rparr>"

text \<open>\<^verbatim>\<open>time.sleep(poll_interval)\<close>; a negative argument raises \<^verbatim>\<open>ValueError\<close>.\<close>

definition do_sleep :: "provider \<Rightarrow> nat \<Rightarrow> int \<Rightarrow> world \<Rightarrow> string + world" where
  "do_sleep env k secs w =
     (if secs < 0 then Inl ''sleep length must be non-negative''
      else Inr (w\<lparr>now := now w + real_of_int secs + sleep_lag env k,
                  trace := trace w @ [Sleep secs]\<rparr>))"

definition timed_out :: "string \<Rightarrow> model_result" where
  "timed_out task_id =
     \<lparr>mr_success = False, mr_message = ''3D generation timed out'',
      mr_task_id = Some task_id, mr_output_path = None, mr_model_url = None,
      mr_thumbnail_url = None\<rparr>"

definition remote_failed :: "string \<Rightarrow> status_result \<Rightarrow> model_result" where
  "remote_failed task_id r =
     \<lparr>mr_success = False,
      mr_message = ''3D generation failed: '' @ (case sr_error r of None \<Rightarrow> ''None'' | Some e \<Rightarrow> e),
      mr_task_id = Some task_id, mr_output_path = None, mr_model_url = None,
      mr_thumbnail_url = None\<rparr>"

definition downloaded :: "string \<Rightarrow> string \<Rightarrow> status_result \<Rightarrow> model_result" where
  "downloaded task_id output_path r =
     \<lparr>mr_success = True, mr_message = ''3D model generated successfully'',
      mr_task_id = Some task_id, mr_output_path = Some output_path,
      mr_model_url = sr_model_url r, mr_thumbnail_url = sr_thumbnail_url r\<rparr>"

text \<open>
  The loop \<^verbatim>\<open>while True\<close> of \<^verbatim>\<open>generate_3d_model\<close>, from its \<open>k\<close>-th iteration on.
  \<open>Inl\<close> is an exception raised inside the loop. The loop need not end (with an interval
  of zero and calls that take no time the clock of the model stands still), so the
  result is an \<open>option\<close>.
\<close>

partial_function (option) poll ::
  "provider \<Rightarrow> string \<Rightarrow> string \<Rightarrow> int \<Rightarrow> int \<Rightarrow> real \<Rightarrow> nat \<Rightarrow> world
    \<Rightarrow> ((string + model_result) \<times> world) option" where
  "poll env task_id output_path timeout poll_interval start_time k w =
     (if now w - start_time > real_of_int timeout then Some (Inr (timed_out task_id), w)
      else
        let status_result = check_status env k; w1 = do_check env k w in
        if sr_status status_result = ''SUCCEEDED'' then
          (case download_error env (sr_model_url status_result) of
             Some e \<Rightarrow> Some (Inl e, w1)
           | None \<Rightarrow> Some (Inr (downloaded task_id output_path status_result), w1))
        else if sr_status status_result = ''FAILED'' then
          Some (Inr (remote_failed task_id status_result), w1)
        else if sr_status status_result \<in> {''PENDING'', ''IN_PROGRESS''} then
          (case do_sleep env k poll_interval w1 of
             Inl e \<Rightarrow> Some (Inl e, w1)
           | Inr w2 \<Rightarrow> poll env task_id output_path timeout poll_interval start_time (Suc k) w2)
        else
          (case do_sleep env k poll_interval w1 of
             Inl e \<Rightarrow> Some (Inl e, w1)
           | Inr w2 \<Rightarrow> poll env task_id output_path timeout poll_interval start_time (Suc k) w2))"

definition generation_error :: "string \<Rightarrow> model_result" where
  "generation_error e =
     \<lparr>mr_success = False, mr_message = ''3D generation error: '' @ e, mr_task_id = None,
      mr_output_path = None, mr_model_url = None, mr_thumbnail_url = None\<rparr>"

text \<open>\<^verbatim>\<open>generate_3d_model\<close>; \<open>None\<close> when the loop does not end.\<close>

definition generate_3d_model ::
  "provider \<Rightarrow> string \<Rightarrow> int \<Rightarrow> int \<Rightarrow> world \<Rightarrow> (model_result \<times> world) option" where
  "generate_3d_model env output_path timeout poll_interval w =
     (case read_error env of
        Some e \<Rightarrow> Some (generation_error e, w)
      | None \<Rightarrow>
          (case create_task env of
             TaskFailed msg \<Rightarrow>
               Some (\<lparr>mr_success = False, mr_message = msg, mr_task_id = None,
                      mr_output_path = None, mr_model_url = None, mr_thumbnail_url = None\<rparr>, w)
           | TaskCreated task_id \<Rightarrow>
               (case poll env task_id output_path timeout poll_interval (now w) 0 w of
                  None \<Rightarrow> None
                | Some (Inl e, w') \<Rightarrow> Some (generation_error e, w')
                | Some (Inr r, w') \<Rightarrow> Some (r, w'))))"

text \<open>
  The reading of the clock, relative to the start of the loop, at the beginning of
  iteration \<open>k\<close> when all earlier iterations slept.
\<close>

fun elapsed_before :: "provider \<Rightarrow> int \<Rightarrow> nat \<Rightarrow> real" where
  "elapsed_before env poll_interval 0 = 0"
| "elapsed_before env poll_interval (Suc k) =
     elapsed_before env poll_interval k + check_cost env k + real_of_int poll_interval
       + sleep_lag env k"

definition checks_made :: "world \<Rightarrow> nat" where
  "checks_made w = length (filter (\<lambda>e. e = CheckStatus) (trace w))"

text \<open>A trace in which a sleep of the given length follows every status check.\<close>

fun paced :: "int \<Rightarrow> event list \<Rightarrow> bool" where
  "paced i [] = True"
| "paced i (CheckStatus # Sleep j # es) = (j = i \<and> paced i es)"
| "paced i [CheckStatus] = True"
| "paced i _ = False"

subsection \<open>Example runs\<close>

text \<open>
  One accepted upload, and the outcomes of the services in three runs: all four succeed,
  the 3D generation reports a timeout, the cartoonizer raises. \<open>uploaded\<close> is the service
  after the upload, \<open>finished env\<close> the service after the task of the upload has run with
  the outcomes \<open>env\<close>.
\<close>

definition example_config :: pipeline_config where
  "example_config = \<lparr>output_dir = ''output'', target_height_mm = 80, printer_profile = ''ender3v2''\<rparr>"

definition example_upload :: upload_file where
  "example_upload =
     \<lparr>uuid4 = ''job-0001'', up_filename = ''me.png'', content_len = 2000000,
      write_error = None,
      saved = \<lparr>suffix_lower = ''.png'', size_bytes = 2000000,
               image = Inr \<lparr>img_width = 1024, img_height = 768, img_mode = ''RGB''\<rparr>\<rparr>,
      st_mtime = ''1700000000.0''\<rparr>"

definition example_path :: string where
  "example_path = ''output/uploads/job-0001_me.png''"

definition example_job :: job where
  "example_job =
     \<lparr>job_id = ''job-0001'', status = ''pending'', upload_path = example_path,
      filename = ''me.png'', created_at = ''1700000000.0'', current_step = None,
      last_update = None, result = None, output_files = None, error = None\<rparr>"

definition uploaded :: system where
  "uploaded =
     \<lparr>registry = [''job-0001'' \<mapsto> example_job],
      pool = [''job-0001'' \<mapsto> Scheduled example_path],
      files = {example_path}\<rparr>"

definition all_succeed :: adapters where
  "all_succeed =
     \<lparr>face_detector = Returns True ''Face detected successfully!'',
      cartoonizer = Returns True ''Successfully cartoonized image with pixar style'',
      three_d_generator = Returns True ''3D model generated successfully'',
      mesh_optimizer = Returns True ''Mesh optimized successfully''\<rparr>"

definition model_times_out :: adapters where
  "model_times_out = all_succeed\<lparr>three_d_generator := Returns False ''3D generation timed out''\<rparr>"

definition cartoonizer_raises :: adapters where
  "cartoonizer_raises = all_succeed\<lparr>cartoonizer := Raises ''connection reset''\<rparr>"

definition finished :: "adapters \<Rightarrow> system" where
  "finished env =
     (case process_avatar_background example_config env ''job-0001'' example_path (registry uploaded) of
        Inl e \<Rightarrow> uploaded
      | Inr (js, calls) \<Rightarrow> uploaded\<lparr>registry := js, pool := (pool uploaded)(''job-0001'' := None)\<rparr>)"


text \<open>Two uploads that are rejected: one over the size limit, one with a wrong file type.\<close>

definition too_large_upload :: upload_file where
  "too_large_upload = example_upload\<lparr>uuid4 := ''job-0002'', content_len := 20000000\<rparr>"

definition wrong_type_upload :: upload_file where
  "wrong_type_upload =
     example_upload\<lparr>uuid4 := ''job-0003'', up_filename := ''me.gif'',
                    saved := \<lparr>suffix_lower = ''.gif'', size_bytes = 2000000,
                             image = Inr \<lparr>img_width = 1024, img_height = 768,
                                         img_mode = ''P''\<rparr>\<rparr>\<rparr>"

text \<open>
  Three scenes of 1024 by 768 pixels: a face over a quarter of the image, no face, and a
  face over one part in 64 of the image.
\<close>

definition good_scene :: scene where
  "good_scene =
     \<lparr>image_shape = Some (768, 1024),
      multi_face_landmarks =
        [ [\<lparr>lm_x = 1 / 4, lm_y = 1 / 4, lm_z = 0\<rparr>, \<lparr>lm_x = 1 / 2, lm_y = 1 / 2, lm_z = 0\<rparr>,
          \<lparr>lm_x = 3 / 4, lm_y = 3 / 4, lm_z = 0\<rparr>] ]\<rparr>"

definition no_face_scene :: scene where
  "no_face_scene = \<lparr>image_shape = Some (768, 1024), multi_face_landmarks = []\<rparr>"

definition small_face_scene :: scene where
  "small_face_scene =
     \<lparr>image_shape = Some (768, 1024),
      multi_face_landmarks =
        [ [\<lparr>lm_x = 1 / 2, lm_y = 1 / 2, lm_z = 0\<rparr>, \<lparr>lm_x = 5 / 8, lm_y = 5 / 8, lm_z = 0\<rparr>] ]\<rparr>"

text \<open>
  Three providers whose status checks take one second: one answers \<^verbatim>\<open>PENDING\<close>
  twice and then \<^verbatim>\<open>SUCCEEDED\<close>, one answers \<^verbatim>\<open>IN_PROGRESS\<close> for ever, and one
  is like the first but the download of its model raises.
\<close>

definition succeeds_after_two :: provider where
  "succeeds_after_two =
     \<lparr>read_error = None, create_task = TaskCreated ''task-42'',
      check_status = (\<lambda>k. if k < 2
         then \<lparr>sr_status = ''PENDING'', sr_model_url = None, sr_thumbnail_url = None,
               sr_error = None\<rparr>
         else \<lparr>sr_status = ''SUCCEEDED'', sr_model_url = Some ''https://assets.example/model.glb'',
               sr_thumbnail_url = None, sr_error = None\<rparr>),
      check_cost = (\<lambda>k. 1), sleep_lag = (\<lambda>k. 0), download_error = (\<lambda>url. None)\<rparr>"

definition never_finishes :: provider where
  "never_finishes =
     succeeds_after_two\<lparr>check_status :=
       (\<lambda>k. \<lparr>sr_status = ''IN_PROGRESS'', sr_model_url = None, sr_thumbnail_url = None,
              sr_error = None\<rparr>)\<rparr>"

definition download_fails :: provider where
  "download_fails = succeeds_after_two\<lparr>download_error := (\<lambda>url. Some ''404 Client Error'')\<rparr>"

definition at_start :: world where
  "at_start = \<lparr>now = 0, trace = []\<rparr>"

section \<open>Properties\<close>

subsection \<open>Unfolding the orchestrator and the task\<close>

lemmas pipeline_defs = process_avatar_def step_cartoonization_def step_3d_generation_def
  step_optimization_def step_failed_def pipeline_error_def

lemmas background_defs = process_avatar_background_def mark_processing_def record_result_def
  handle_exception_def update_job_status_def

lemma process_avatar_result_ok:
  "process_avatar cfg env cb p jid s = (s', calls, res) \<Longrightarrow> result_ok res"
  by (auto simp: pipeline_defs Let_def result_ok_def split: outcome.splits if_splits)

lemma process_avatar_events:
  "process_avatar cfg env record_event p jid [] = (evs, calls, res) \<Longrightarrow>
   process_avatar cfg env cb p jid s = (foldl (\<lambda>s (stp, d). cb stp d s) s evs, calls, res)"
  by (auto simp: pipeline_defs Let_def record_event_def split: outcome.splits if_splits)

lemma upload_rejected_registry:
  "upload_photo mx file (js, fs) = (Inl e, (js', fs')) \<Longrightarrow> js' = js"
  by (auto simp: upload_photo_def Let_def split: option.splits if_splits prod.splits bool.splits)

lemma upload_accepted_registry:
  "upload_photo mx file (js, fs) = (Inr (resp, (jid, path)), (js', fs')) \<Longrightarrow>
   jid = uuid4 file \<and> (\<exists>j. js' = js(jid \<mapsto> j) \<and> job_ok (Some (Scheduled path)) j)"
  by (auto simp: upload_photo_def Let_def job_ok_def split: option.splits if_splits prod.splits bool.splits)

lemma system_ok_iff:
  "system_ok s \<longleftrightarrow>
     (\<forall>jid. (registry s jid = None \<longrightarrow> pool s jid = None) \<and>
            (\<forall>j. registry s jid = Some j \<longrightarrow> job_ok (pool s jid) j))"
  by (auto simp: system_ok_def split: option.splits)

lemma system_okD1: "system_ok s \<Longrightarrow> registry s jid = None \<Longrightarrow> pool s jid = None"
  by (simp add: system_ok_iff)

lemma system_okD2: "system_ok s \<Longrightarrow> registry s jid = Some j \<Longrightarrow> job_ok (pool s jid) j"
  by (simp add: system_ok_iff)

lemma system_ok_update:
  assumes "system_ok s"
      and "registry s' = (registry s)(jid \<mapsto> j')"
      and "pool s' = (pool s)(jid := t')"
      and "job_ok t' j'"
  shows "system_ok s'"
  using assms by (auto simp: system_ok_iff)

lemma task_has_job:
  assumes "system_ok s" and "pool s jid = Some t"
  obtains j where "registry s jid = Some j" and "job_ok (Some t) j"
proof -
  from assms have "registry s jid \<noteq> None" by (auto dest: system_okD1)
  then obtain j where j: "registry s jid = Some j" by blast
  with assms have "job_ok (Some t) j" by (auto dest: system_okD2)
  with j show ?thesis by (rule that)
qed

lemma step_preserves_ok:
  assumes "step cfg mx s s'" and "system_ok s"
  shows "system_ok s'"
  using assms
proof (induction rule: step.induct)
  case (upload_accepted f s resp jid path js' fs')
  from upload_accepted_registry[OF upload_accepted(2)]
  obtain j where j: "jid = uuid4 f" "js' = (registry s)(jid \<mapsto> j)" "job_ok (Some (Scheduled path)) j"
    by blast
  show ?case
    by (rule system_ok_update[OF upload_accepted(3), where jid = jid and j' = j
          and t' = "Some (Scheduled path)"]) (simp_all add: j)
next
  case (upload_rejected f s e js' fs')
  then show ?case using upload_rejected_registry[OF upload_rejected(1)]
    by (auto simp: system_ok_iff)
next
  case (task_start s jid path js' env evs calls res)
  have ok: "result_ok res" using task_start(3) by (rule process_avatar_result_ok)
  from task_start(4,1) obtain j where j: "registry s jid = Some j" "job_ok (Some (Scheduled path)) j"
    by (rule task_has_job)
  have js': "js' = (registry s)(jid \<mapsto> j\<lparr>status := ''processing''\<rparr>)"
    using task_start(2) j by (simp add: mark_processing_def)
  have "job_ok (Some (Running evs res)) (j\<lparr>status := ''processing''\<rparr>)"
    using j(2) ok by (simp add: job_ok_def)
  then show ?case
    by (rule system_ok_update[OF task_start(4), rotated 2]) (simp_all add: js')
next
  case (task_callback s jid stp d evs res)
  from task_callback(2,1) obtain j where j: "registry s jid = Some j"
      "job_ok (Some (Running ((stp, d) # evs) res)) j"
    by (rule task_has_job)
  have "job_ok (Some (Running evs res)) (j\<lparr>current_step := Some stp, last_update := Some d\<rparr>)"
    using j(2) by (simp add: job_ok_def)
  then show ?case
    by (rule system_ok_update[OF task_callback(2), rotated 2])
       (simp_all add: update_job_status_def j)
next
  case (task_finish s jid res js')
  from task_finish(3,1) obtain j where j: "registry s jid = Some j"
      "job_ok (Some (Running [] res)) j"
    by (rule task_has_job)
  from task_finish(2) j obtain j' where j': "js' = (registry s)(jid \<mapsto> j')" "job_ok None j'"
    by (auto simp: record_result_def job_ok_def result_ok_def split: option.splits if_splits)
  from j'(2) show ?case
    by (rule system_ok_update[OF task_finish(3), rotated 2]) (simp_all add: j')
next
  case (task_finish_handler s jid res e js1 js')
  from task_finish_handler(4,1) obtain j where j: "registry s jid = Some j"
      "job_ok (Some (Running [] res)) j"
    by (rule task_has_job)
  from task_finish_handler(2,3) j obtain j' where j': "js' = (registry s)(jid \<mapsto> j')" "job_ok None j'"
    by (auto simp: record_result_def handle_exception_def job_ok_def result_ok_def
             split: option.splits if_splits)
  from j'(2) show ?case
    by (rule system_ok_update[OF task_finish_handler(4), rotated 2]) (simp_all add: j')
next
  case (files_change s fs')
  then show ?case by (simp add: system_ok_iff)
next
  case (query s)
  then show ?case .
qed

lemma reachable_ok: "reachable cfg mx s \<Longrightarrow> system_ok s"
proof (induction rule: reachable.induct)
  case reachable_init
  show ?case by (simp add: system_ok_iff init_def)
next
  case (reachable_step s s')
  then show ?case by (blast intro: step_preserves_ok)
qed


lemma status_rank_simps:
  "status_rank ''pending'' = 0" "status_rank ''processing'' = 1"
  "status_rank ''completed'' = 2" "status_rank ''failed'' = 2"
  by (simp_all add: status_rank_def)

lemma terminal_simps:
  "\<not> terminal ''pending''" "\<not> terminal ''processing''"
  "terminal ''completed''" "terminal ''failed''"
  by (simp_all add: terminal_def)

lemma job_ok_status:
  "job_ok (Some (Scheduled p)) j \<Longrightarrow> status j = ''pending''"
  "job_ok (Some (Running evs res)) j \<Longrightarrow> status j = ''processing''"
  "job_ok None j \<Longrightarrow> status j = ''completed'' \<or> status j = ''failed''"
  by (auto simp: job_ok_def)

lemma job_ok_rank: "job_ok t j \<Longrightarrow> status_rank (status j) \<le> 2"
proof (cases t)
  case None
  assume "job_ok t j"
  with None have "status j = ''completed'' \<or> status j = ''failed''" by (simp add: job_ok_status)
  then show ?thesis by (auto simp: status_rank_simps)
next
  case (Some a)
  assume "job_ok t j"
  with Some show ?thesis
    by (cases a) (auto simp: status_rank_simps dest: job_ok_status)
qed

lemma record_result_status:
  assumes "record_result jid res js = (x, js')" and "js jid = Some j"
  shows "\<exists>j'. js' jid = Some j' \<and> (status j' = ''completed'' \<or> status j' = ''failed'')
           \<and> (\<forall>k. k \<noteq> jid \<longrightarrow> js' k = js k)"
  using assms by (auto simp: record_result_def split: option.splits if_splits)

lemma handle_exception_status:
  assumes "handle_exception jid e js = Inr js'"
  shows "\<exists>j'. js' jid = Some j' \<and> status j' = ''failed'' \<and> (\<forall>k. k \<noteq> jid \<longrightarrow> js' k = js k)"
  using assms by (auto simp: handle_exception_def split: option.splits)


lemma step_status_forward:
  assumes "step cfg mx s s'" and "system_ok s" and "registry s jid0 = Some j"
  shows "\<exists>j'. registry s' jid0 = Some j' \<and> status_rank (status j) \<le> status_rank (status j')
           \<and> (terminal (status j) \<longrightarrow> status j' = status j)"
  using assms
proof (induction rule: step.induct)
  case (upload_accepted f s resp jid path js' fs')
  from upload_accepted_registry[OF upload_accepted(2)]
  obtain jn where jn: "jid = uuid4 f" "js' = (registry s)(jid \<mapsto> jn)" by blast
  with upload_accepted(1,4) have "jid0 \<noteq> jid" by auto
  with jn upload_accepted(4) show ?case by simp
next
  case (upload_rejected f s e js' fs')
  then show ?case using upload_rejected_registry[OF upload_rejected(1)] by simp
next
  case (task_start s jid path js' env evs calls res)
  from task_start(4,1) obtain jt where jt: "registry s jid = Some jt" "job_ok (Some (Scheduled path)) jt"
    by (rule task_has_job)
  have js': "js' = (registry s)(jid \<mapsto> jt\<lparr>status := ''processing''\<rparr>)"
    using task_start(2) jt by (simp add: mark_processing_def)
  show ?case
  proof (cases "jid0 = jid")
    case True
    with jt task_start(5) have "status j = ''pending''" by (simp add: job_ok_status)
    with True js' show ?thesis by (simp add: status_rank_simps terminal_simps)
  next
    case False
    with js' task_start(5) show ?thesis by simp
  qed
next
  case (task_callback s jid stp d evs res)
  from task_callback(2,1) obtain jt where jt: "registry s jid = Some jt"
      "job_ok (Some (Running ((stp, d) # evs) res)) jt"
    by (rule task_has_job)
  show ?case
  proof (cases "jid0 = jid")
    case True
    with jt task_callback(3) show ?thesis by (simp add: update_job_status_def)
  next
    case False
    with jt task_callback(3) show ?thesis by (simp add: update_job_status_def)
  qed
next
  case (task_finish s jid res js')
  from task_finish(3,1) obtain jt where jt: "registry s jid = Some jt"
      "job_ok (Some (Running [] res)) jt"
    by (rule task_has_job)
  from record_result_status[OF task_finish(2) jt(1)]
  obtain j' where j': "js' jid = Some j'" "status j' = ''completed'' \<or> status j' = ''failed''"
      "\<forall>k. k \<noteq> jid \<longrightarrow> js' k = registry s k" by blast
  show ?case
  proof (cases "jid0 = jid")
    case True
    with jt task_finish(4) have "status j = ''processing''" by (simp add: job_ok_status)
    with True j' show ?thesis by (auto simp: status_rank_simps terminal_simps)
  next
    case False
    with j'(3) task_finish(4) show ?thesis by simp
  qed
next
  case (task_finish_handler s jid res e js1 js')
  from task_finish_handler(4,1) obtain jt where jt: "registry s jid = Some jt"
      "job_ok (Some (Running [] res)) jt"
    by (rule task_has_job)
  from record_result_status[OF task_finish_handler(2) jt(1)]
  have j1: "\<forall>k. k \<noteq> jid \<longrightarrow> js1 k = registry s k" by blast
  from handle_exception_status[OF task_finish_handler(3)]
  obtain j' where j': "js' jid = Some j'" "status j' = ''failed''"
      "\<forall>k. k \<noteq> jid \<longrightarrow> js' k = js1 k" by blast
  show ?case
  proof (cases "jid0 = jid")
    case True
    with jt task_finish_handler(5) have "status j = ''processing''" by (simp add: job_ok_status)
    with True j' show ?thesis by (simp add: status_rank_simps terminal_simps)
  next
    case False
    with j'(3) j1 task_finish_handler(5) show ?thesis by simp
  qed
next
  case (files_change s fs')
  then show ?case by simp
next
  case (query s)
  then show ?case by simp
qed

subsection \<open>A task run is a path of the service\<close>

lemma reachable_steps:
  "(step cfg mx)\<^sup>*\<^sup>* s s' \<Longrightarrow> reachable cfg mx s \<Longrightarrow> reachable cfg mx s'"
  by (induction rule: rtranclp_induct) (auto intro: reachable_step)

lemma callbacks_steps:
  "pool s jid = Some (Running evs res) \<Longrightarrow>
   (step cfg mx)\<^sup>*\<^sup>* s
     (s\<lparr>registry := foldl (\<lambda>js (stp, d). update_job_status jid stp d js) (registry s) evs,
        pool := (pool s)(jid \<mapsto> Running [] res)\<rparr>)"
proof (induction evs arbitrary: s)
  case Nil
  then have "(pool s)(jid \<mapsto> Running [] res) = pool s" by (simp add: fun_upd_idem)
  then show ?case by simp
next
  case (Cons ev evs)
  obtain stp d where ev: "ev = (stp, d)" by (cases ev)
  let ?s1 = "s\<lparr>registry := update_job_status jid stp d (registry s),
               pool := (pool s)(jid \<mapsto> Running evs res)\<rparr>"
  have "step cfg mx s ?s1" using Cons.prems ev by (auto intro: task_callback)
  moreover have p1: "pool ?s1 jid = Some (Running evs res)" by simp
  have eq: "?s1\<lparr>registry := foldl (\<lambda>js (stp, d). update_job_status jid stp d js) (registry ?s1) evs,
                 pool := (pool ?s1)(jid \<mapsto> Running [] res)\<rparr>
          = s\<lparr>registry := foldl (\<lambda>js (stp, d). update_job_status jid stp d js) (registry s) (ev # evs),
               pool := (pool s)(jid \<mapsto> Running [] res)\<rparr>"
    by (rule system.equality) (simp_all add: ev)
  have "(step cfg mx)\<^sup>*\<^sup>* ?s1
     (s\<lparr>registry := foldl (\<lambda>js (stp, d). update_job_status jid stp d js) (registry s) (ev # evs),
        pool := (pool s)(jid \<mapsto> Running [] res)\<rparr>)"
    using Cons.IH[OF p1] unfolding eq .
  ultimately show ?case by (rule converse_rtranclp_into_rtranclp)
qed

lemma run_task_steps:
  assumes "pool s jid = Some (Scheduled p)"
      and "process_avatar_background cfg env jid p (registry s) = Inr (js', calls)"
  shows "(step cfg mx)\<^sup>*\<^sup>* s (s\<lparr>registry := js', pool := (pool s)(jid := None)\<rparr>)"
proof -
  from assms(2) obtain js1 where js1: "mark_processing jid (registry s) = Inr js1"
    by (cases "mark_processing jid (registry s)")
       (auto simp: process_avatar_background_def handle_exception_def mark_processing_def
             split: option.splits)
  obtain evs calls1 res where ev: "process_avatar cfg env record_event p jid [] = (evs, calls1, res)"
    by (cases "process_avatar cfg env record_event p jid []") auto
  let ?f = "\<lambda>js (stp, d). update_job_status jid stp d js"
  let ?js2 = "foldl ?f js1 evs"
  have pa: "process_avatar cfg env (update_job_status jid) p jid js1 = (?js2, calls1, res)"
    using process_avatar_events[OF ev, of "update_job_status jid" js1]
    by (simp add: case_prod_unfold)
  let ?s1 = "s\<lparr>registry := js1, pool := (pool s)(jid \<mapsto> Running evs res)\<rparr>"
  let ?s2 = "s\<lparr>registry := ?js2, pool := (pool s)(jid \<mapsto> Running [] res)\<rparr>"
  let ?s3 = "s\<lparr>registry := js', pool := (pool s)(jid := None)\<rparr>"
  have st1: "step cfg mx s ?s1" using assms(1) js1 ev by (rule task_start)
  have p1: "pool ?s1 jid = Some (Running evs res)" by simp
  have eq2: "?s1\<lparr>registry := foldl ?f (registry ?s1) evs,
                  pool := (pool ?s1)(jid \<mapsto> Running [] res)\<rparr> = ?s2"
    by (rule system.equality) simp_all
  have st2: "(step cfg mx)\<^sup>*\<^sup>* ?s1 ?s2"
    using callbacks_steps[OF p1, of cfg mx] unfolding eq2 .
  have p2: "pool ?s2 jid = Some (Running [] res)" by simp
  have eq3: "?s2\<lparr>registry := js', pool := (pool ?s2)(jid := None)\<rparr> = ?s3"
    by (rule system.equality) simp_all
  have st3: "step cfg mx ?s2 ?s3"
  proof (cases "record_result jid res ?js2")
    case (Pair x js3)
    show ?thesis
    proof (cases x)
      case None
      with Pair assms(2) js1 pa have "js3 = js'" by (simp add: process_avatar_background_def)
      with Pair None have "record_result jid res (registry ?s2) = (None, js')" by simp
      from task_finish[OF p2 this, of cfg mx] show ?thesis unfolding eq3 .
    next
      case (Some e)
      with Pair assms(2) js1 pa have h: "handle_exception jid e js3 = Inr js'"
        by (cases "handle_exception jid e js3") (auto simp: process_avatar_background_def)
      from Pair Some have "record_result jid res (registry ?s2) = (Some e, js3)" by simp
      from task_finish_handler[OF p2 this h, of cfg mx] show ?thesis unfolding eq3 .
    qed
  qed
  from st1 st2 st3 show ?thesis by (meson converse_rtranclp_into_rtranclp rtranclp.rtrancl_into_rtrancl)
qed

subsection \<open>The example runs\<close>

lemma sanitize_example: "sanitize_filename ''me.png'' = ''me.png''"
  by (simp add: sanitize_filename_def isalnum_def Let_def)

lemma example_upload_accepted:
  "upload_photo 10 example_upload (registry init, files init) =
     (Inr (\<lparr>ur_job_id = ''job-0001'',
            ur_message = ''Photo uploaded successfully. Processing started.'',
            ur_status = ''pending''\<rparr>, (''job-0001'', example_path)),
      (registry uploaded, files uploaded))"
  by (simp add: upload_photo_def Let_def init_def uploaded_def example_upload_def example_path_def
        example_job_def sanitize_example validate_image_file_def ALLOWED_IMAGE_EXTENSIONS_def
        MIN_IMAGE_DIMENSION_def MAX_IMAGE_DIMENSION_def OUTPUT_DIR_def)

lemma uploaded_reachable: "reachable cfg 10 uploaded"
proof -
  have "uuid4 example_upload \<notin> dom (registry init)" by (simp add: init_def)
  from upload_accepted[OF this example_upload_accepted, of cfg]
  have "step cfg 10 init uploaded" by (simp add: init_def uploaded_def)
  with reachable_init show ?thesis by (rule reachable_step)
qed

lemma finished_steps:
  "(step example_config 10)\<^sup>*\<^sup>* uploaded (finished env)"
proof (cases "process_avatar_background example_config env ''job-0001'' example_path (registry uploaded)")
  case (Inl e)
  then show ?thesis by (simp add: finished_def)
next
  case (Inr r)
  obtain js calls where r: "r = (js, calls)" by (cases r)
  have "pool uploaded ''job-0001'' = Some (Scheduled example_path)" by (simp add: uploaded_def)
  from run_task_steps[OF this Inr[unfolded r], of 10] show ?thesis
    by (simp add: finished_def Inr r)
qed

lemma finished_all_succeed:
  "\<exists>j. registry (finished all_succeed) ''job-0001'' = Some j \<and> status j = ''completed''"
  by (simp add: finished_def uploaded_def all_succeed_def pipeline_defs background_defs Let_def)

lemma finished_model_times_out:
  "\<exists>j. registry (finished model_times_out) ''job-0001'' = Some j \<and> status j = ''failed''"
  by (simp add: finished_def uploaded_def all_succeed_def model_times_out_def pipeline_defs background_defs Let_def)

subsection \<open>Claims about one task run\<close>

text \<open>
  C1. The stages run in the order FaceCheck, Cartoonize, Generate3D, OptimizeMesh. When
  the services of the stages before \<open>K\<close> return success and the service of stage \<open>K\<close>
  returns \<^verbatim>\<open>success = False\<close> with message \<open>msg\<close>, the task of an existing job ends
  with the job failed, its error equal to \<open>msg\<close>, and the services called are exactly
  those of the stages up to \<open>K\<close>: no later stage is invoked.
\<close>

theorem stage_failure_stops_pipeline:
  assumes "js jid = Some j"
      and "\<forall>S \<in> set (takeWhile (\<lambda>S. S \<noteq> K) stage_order). \<exists>m. adapter_of env S = Returns True m"
      and "adapter_of env K = Returns False msg"
  shows "\<exists>js' calls j'. process_avatar_background cfg env jid input_path js = Inr (js', calls)
        \<and> js' jid = Some j' \<and> status j' = ''failed'' \<and> error j' = Some msg
        \<and> map call_stage calls = takeWhile (\<lambda>S. S \<noteq> K) stage_order @ [K]"
  using assms
  by (cases K) (auto simp: stage_order_def pipeline_defs background_defs Let_def)

theorem stage_failure_stops_pipeline_witness:
  "registry uploaded ''job-0001'' = Some example_job
   \<and> adapter_of model_times_out FaceCheck = Returns True ''Face detected successfully!''
   \<and> adapter_of model_times_out Cartoonize
        = Returns True ''Successfully cartoonized image with pixar style''
   \<and> adapter_of model_times_out Generate3D = Returns False ''3D generation timed out''
   \<and> (\<exists>js' calls j'.
         process_avatar_background example_config model_times_out ''job-0001'' example_path
           (registry uploaded) = Inr (js', calls)
         \<and> js' ''job-0001'' = Some j' \<and> status j' = ''failed''
         \<and> error j' = Some ''3D generation timed out''
         \<and> map call_stage calls = [FaceCheck, Cartoonize, Generate3D])"
  using stage_failure_stops_pipeline [of "registry uploaded" "''job-0001''" example_job
          Generate3D model_times_out "''3D generation timed out''" example_config example_path]
  by (simp add: uploaded_def model_times_out_def all_succeed_def stage_order_def)

text \<open>
  C3. When the services of the stages before \<open>K\<close> return success and the service of
  stage \<open>K\<close> raises an exception with text \<open>e\<close>, the exception is caught by the
  orchestrator: the task of an existing job ends normally, the job is failed with the
  error \<^verbatim>\<open>"Pipeline error: "\<close> followed by \<open>e\<close>, and so it is not left processing.
\<close>

theorem unexpected_fault_recorded_as_failed:
  assumes "js jid = Some j"
      and "\<forall>S \<in> set (takeWhile (\<lambda>S. S \<noteq> K) stage_order). \<exists>m. adapter_of env S = Returns True m"
      and "adapter_of env K = Raises e"
  shows "\<exists>js' calls j'. process_avatar_background cfg env jid input_path js = Inr (js', calls)
        \<and> js' jid = Some j' \<and> status j' = ''failed''
        \<and> error j' = Some (''Pipeline error: '' @ e)
        \<and> status j' \<noteq> ''processing''"
  using assms
  by (cases K) (auto simp: stage_order_def pipeline_defs background_defs Let_def)

theorem unexpected_fault_recorded_as_failed_witness:
  "registry uploaded ''job-0001'' = Some example_job
   \<and> adapter_of cartoonizer_raises FaceCheck = Returns True ''Face detected successfully!''
   \<and> adapter_of cartoonizer_raises Cartoonize = Raises ''connection reset''
   \<and> (\<exists>js' calls j'.
         process_avatar_background example_config cartoonizer_raises ''job-0001'' example_path
           (registry uploaded) = Inr (js', calls)
         \<and> js' ''job-0001'' = Some j' \<and> status j' = ''failed''
         \<and> error j' = Some ''Pipeline error: connection reset''
         \<and> status j' \<noteq> ''processing'')"
  using unexpected_fault_recorded_as_failed [of "registry uploaded" "''job-0001''" example_job
          Cartoonize cartoonizer_raises "''connection reset''" example_config example_path]
  by (simp add: uploaded_def cartoonizer_raises_def all_succeed_def stage_order_def)

text \<open>
  C10. Whatever the services do, the task of an existing job ends normally; when it
  leaves the job failed, the current step of the job is \<^verbatim>\<open>"failed"\<close> and a status
  query for it reports progress 0.
\<close>

theorem failed_job_reports_zero_progress:
  assumes "js jid = Some j"
  shows "\<exists>js' calls j'. process_avatar_background cfg env jid input_path js = Inr (js', calls)
        \<and> js' jid = Some j'
        \<and> (status j' = ''failed'' \<longrightarrow>
              current_step j' = Some ''failed''
              \<and> (\<exists>r. get_status js' jid = Inr r \<and> js_status r = ''failed'' \<and> js_progress r = 0))"
  using assms
  by (auto simp: pipeline_defs background_defs Let_def get_status_def calc_progress_def
        dict_get_def progress_map_def split: outcome.splits)

theorem failed_job_reports_zero_progress_witness:
  "registry uploaded ''job-0001'' = Some example_job
   \<and> (\<exists>js' calls j'.
         process_avatar_background example_config model_times_out ''job-0001'' example_path
           (registry uploaded) = Inr (js', calls)
         \<and> js' ''job-0001'' = Some j' \<and> status j' = ''failed''
         \<and> current_step j' = Some ''failed''
         \<and> (\<exists>r. get_status js' ''job-0001'' = Inr r \<and> js_status r = ''failed''
                  \<and> js_progress r = 0))"
proof -
  have job: "registry uploaded ''job-0001'' = Some example_job" by (simp add: uploaded_def)
  from failed_job_reports_zero_progress [of "registry uploaded" "''job-0001''" example_job
         example_config model_times_out example_path, OF job]
  obtain js' calls j' where run:
    "process_avatar_background example_config model_times_out ''job-0001'' example_path
       (registry uploaded) = Inr (js', calls)"
    "js' ''job-0001'' = Some j'"
    "status j' = ''failed'' \<longrightarrow>
       current_step j' = Some ''failed''
       \<and> (\<exists>r. get_status js' ''job-0001'' = Inr r \<and> js_status r = ''failed'' \<and> js_progress r = 0)"
    by blast
  from finished_model_times_out run(1,2) have "status j' = ''failed''"
    by (simp add: finished_def)
  with job run show ?thesis by blast
qed

subsection \<open>Claims about the running service\<close>



text \<open>
  C6. From a state the service can reach, along any sequence of steps, the status of a
  job never moves backward in the order pending, processing, completed or failed; it
  stays one of these four values, and once it is completed or failed it does not change
  again.
\<close>

theorem status_moves_forward:
  assumes "reachable cfg mx s" and "(step cfg mx)\<^sup>*\<^sup>* s s'" and "registry s jid = Some j"
  shows "\<exists>j'. registry s' jid = Some j' \<and> status_rank (status j) \<le> status_rank (status j')
           \<and> status_rank (status j') \<le> 2
           \<and> (terminal (status j) \<longrightarrow> status j' = status j)"
  using assms(2,1,3)
proof (induction rule: rtranclp_induct)
  case base
  then show ?case using job_ok_rank[OF system_okD2[OF reachable_ok]] by auto
next
  case (step y z)
  then obtain jy where jy: "registry y jid = Some jy" "status_rank (status j) \<le> status_rank (status jy)"
     "terminal (status j) \<longrightarrow> status jy = status j" by blast
  have ry: "reachable cfg mx y" using step(1,4) by (rule reachable_steps)
  have rz: "reachable cfg mx z" using ry step(2) by (rule reachable_step)
  from step_status_forward[OF step(2) reachable_ok[OF ry] jy(1)]
  obtain jz where jz: "registry z jid = Some jz" "status_rank (status jy) \<le> status_rank (status jz)"
     "terminal (status jy) \<longrightarrow> status jz = status jy" by blast
  have "status_rank (status jz) \<le> 2"
    using job_ok_rank[OF system_okD2[OF reachable_ok[OF rz] jz(1)]] .
  with jy jz show ?case by auto
qed

theorem status_moves_forward_witness:
  "reachable example_config 10 uploaded
   \<and> (step example_config 10)\<^sup>*\<^sup>* uploaded (finished all_succeed)
   \<and> registry uploaded ''job-0001'' = Some example_job
   \<and> status example_job = ''pending''
   \<and> (\<exists>j'. registry (finished all_succeed) ''job-0001'' = Some j' \<and> status j' = ''completed''
           \<and> status_rank (status example_job) \<le> status_rank (status j')
           \<and> status_rank (status j') \<le> 2)
   \<and> reachable example_config 10 (finished all_succeed)
   \<and> (step example_config 10)\<^sup>*\<^sup>* (finished all_succeed) ((finished all_succeed)\<lparr>files := {}\<rparr>)
   \<and> (\<exists>j j'. registry (finished all_succeed) ''job-0001'' = Some j \<and> terminal (status j)
           \<and> registry ((finished all_succeed)\<lparr>files := {}\<rparr>) ''job-0001'' = Some j'
           \<and> status j' = status j)"
proof -
  have r0: "reachable example_config 10 uploaded" by (rule uploaded_reachable)
  have st: "(step example_config 10)\<^sup>*\<^sup>* uploaded (finished all_succeed)"
    by (rule finished_steps)
  have job: "registry uploaded ''job-0001'' = Some example_job" by (simp add: uploaded_def)
  have pend: "status example_job = ''pending''" by (simp add: example_job_def)
  from finished_all_succeed obtain j1 where
    j1: "registry (finished all_succeed) ''job-0001'' = Some j1" "status j1 = ''completed''"
    by blast
  from status_moves_forward [OF r0 st job] j1
  have c1: "\<exists>j'. registry (finished all_succeed) ''job-0001'' = Some j' \<and> status j' = ''completed''
           \<and> status_rank (status example_job) \<le> status_rank (status j')
           \<and> status_rank (status j') \<le> 2"
    by auto
  have r1: "reachable example_config 10 (finished all_succeed)"
    using st r0 by (rule reachable_steps)
  have st2: "(step example_config 10)\<^sup>*\<^sup>* (finished all_succeed) ((finished all_succeed)\<lparr>files := {}\<rparr>)"
    by (rule r_into_rtranclp) (rule files_change)
  have t1: "terminal (status j1)" using j1(2) by (simp add: terminal_simps)
  from status_moves_forward [OF r1 st2 j1(1)] t1 j1(1)
  have c2: "\<exists>j j'. registry (finished all_succeed) ''job-0001'' = Some j \<and> terminal (status j)
           \<and> registry ((finished all_succeed)\<lparr>files := {}\<rparr>) ''job-0001'' = Some j'
           \<and> status j' = status j"
    by blast
  from r0 st job pend c1 r1 st2 c2 show ?thesis by blast
qed

subsection \<open>Claims about status queries and fetches\<close>














subsection \<open>Claims about submission\<close>

lemma upload_photo_rejected:
  assumes "fst (upload_photo mx f (js, fs)) = Inl e"
  shows "fst (snd (upload_photo mx f (js, fs))) = js"
proof -
  obtain js' fs' where "upload_photo mx f (js, fs) = (Inl e, (js', fs'))"
    using assms by (cases "upload_photo mx f (js, fs)") auto
  then show ?thesis using upload_rejected_registry by fastforce
qed

text \<open>
  C8. An upload whose content is over the size limit is rejected with 413, and one whose
  saved file fails the image validation is rejected with 400. A rejected upload leaves
  the registry as it was, so a status query for its identifier, if no job had it, answers
  404. An upload that passes both checks and is written without error returns the job id
  and the status \<^verbatim>\<open>"pending"\<close>, and the registry then holds a pending job under this
  id, with no step, result, output files or error; the task for this job is handed to the
  background tasks, and in the service it is scheduled, not yet started.
\<close>

theorem upload_rejects_or_creates_pending_job:
  "(real (content_len f) / (1024 * 1024) > of_int mx \<longrightarrow>
      fst (upload_photo mx f (js, fs)) = Inl (HTTPException 413 ''File too large''))
   \<and> (\<not> real (content_len f) / (1024 * 1024) > of_int mx \<and> write_error f = None
        \<and> \<not> fst (validate_image_file True (saved f) False True) \<longrightarrow>
      fst (upload_photo mx f (js, fs))
        = Inl (HTTPException 400 (snd (validate_image_file True (saved f) False True))))
   \<and> (\<forall>e. fst (upload_photo mx f (js, fs)) = Inl e \<longrightarrow>
        fst (snd (upload_photo mx f (js, fs))) = js
        \<and> (uuid4 f \<notin> dom js \<longrightarrow>
             get_status (fst (snd (upload_photo mx f (js, fs)))) (uuid4 f)
               = Inl (HTTPException 404 ''Job not found'')))
   \<and> (\<not> real (content_len f) / (1024 * 1024) > of_int mx \<and> write_error f = None
        \<and> fst (validate_image_file True (saved f) False True) \<longrightarrow>
      (\<exists>resp path js' fs' j.
          upload_photo mx f (js, fs) = (Inr (resp, (uuid4 f, path)), (js', fs'))
          \<and> ur_job_id resp = uuid4 f \<and> ur_status resp = ''pending''
          \<and> js' = js(uuid4 f \<mapsto> j)
          \<and> status j = ''pending'' \<and> upload_path j = path \<and> current_step j = None
          \<and> result j = None \<and> output_files j = None \<and> error j = None
          \<and> (uuid4 f \<notin> dom js \<longrightarrow>
                step cfg mx \<lparr>registry = js, pool = p, files = fs\<rparr>
                  \<lparr>registry = js', pool = p(uuid4 f \<mapsto> Scheduled path), files = fs'\<rparr>)))"
proof (intro conjI)
  show "real (content_len f) / (1024 * 1024) > of_int mx \<longrightarrow>
      fst (upload_photo mx f (js, fs)) = Inl (HTTPException 413 ''File too large'')"
    by (simp add: upload_photo_def Let_def)
  show "\<not> real (content_len f) / (1024 * 1024) > of_int mx \<and> write_error f = None
        \<and> \<not> fst (validate_image_file True (saved f) False True) \<longrightarrow>
      fst (upload_photo mx f (js, fs))
        = Inl (HTTPException 400 (snd (validate_image_file True (saved f) False True)))"
    by (cases "validate_image_file True (saved f) False True")
       (simp add: upload_photo_def Let_def)
  show "\<forall>e. fst (upload_photo mx f (js, fs)) = Inl e \<longrightarrow>
        fst (snd (upload_photo mx f (js, fs))) = js
        \<and> (uuid4 f \<notin> dom js \<longrightarrow>
             get_status (fst (snd (upload_photo mx f (js, fs)))) (uuid4 f)
               = Inl (HTTPException 404 ''Job not found''))"
  proof (intro allI impI)
    fix e assume "fst (upload_photo mx f (js, fs)) = Inl e"
    then have "fst (snd (upload_photo mx f (js, fs))) = js" by (rule upload_photo_rejected)
    then show "fst (snd (upload_photo mx f (js, fs))) = js
        \<and> (uuid4 f \<notin> dom js \<longrightarrow>
             get_status (fst (snd (upload_photo mx f (js, fs)))) (uuid4 f)
               = Inl (HTTPException 404 ''Job not found''))"
      by (auto simp: get_status_def domIff split: option.splits)
  qed
  show "\<not> real (content_len f) / (1024 * 1024) > of_int mx \<and> write_error f = None
        \<and> fst (validate_image_file True (saved f) False True) \<longrightarrow>
      (\<exists>resp path js' fs' j.
          upload_photo mx f (js, fs) = (Inr (resp, (uuid4 f, path)), (js', fs'))
          \<and> ur_job_id resp = uuid4 f \<and> ur_status resp = ''pending''
          \<and> js' = js(uuid4 f \<mapsto> j)
          \<and> status j = ''pending'' \<and> upload_path j = path \<and> current_step j = None
          \<and> result j = None \<and> output_files j = None \<and> error j = None
          \<and> (uuid4 f \<notin> dom js \<longrightarrow>
                step cfg mx \<lparr>registry = js, pool = p, files = fs\<rparr>
                  \<lparr>registry = js', pool = p(uuid4 f \<mapsto> Scheduled path), files = fs'\<rparr>))"
  proof (intro impI)
    assume h: "\<not> real (content_len f) / (1024 * 1024) > of_int mx \<and> write_error f = None
        \<and> fst (validate_image_file True (saved f) False True)"
    obtain msg where v: "validate_image_file True (saved f) False True = (True, msg)"
      using h by (cases "validate_image_file True (saved f) False True") auto
    let ?path = "OUTPUT_DIR @ ''/uploads/'' @ uuid4 f @ ''_'' @ sanitize_filename (up_filename f)"
    let ?j = "\<lparr>job_id = uuid4 f, status = ''pending'', upload_path = ?path,
               filename = sanitize_filename (up_filename f), created_at = st_mtime f,
               current_step = None, last_update = None, result = None,
               output_files = None, error = None\<rparr>"
    let ?resp = "\<lparr>ur_job_id = uuid4 f,
                  ur_message = ''Photo uploaded successfully. Processing started.'',
                  ur_status = ''pending''\<rparr>"
    have up: "upload_photo mx f (js, fs)
               = (Inr (?resp, (uuid4 f, ?path)), (js(uuid4 f \<mapsto> ?j), insert ?path fs))"
      using h v by (simp add: upload_photo_def Let_def)
    have st: "uuid4 f \<notin> dom js \<longrightarrow>
                step cfg mx \<lparr>registry = js, pool = p, files = fs\<rparr>
                  \<lparr>registry = js(uuid4 f \<mapsto> ?j), pool = p(uuid4 f \<mapsto> Scheduled ?path),
                   files = insert ?path fs\<rparr>"
    proof
      assume fresh: "uuid4 f \<notin> dom js"
      let ?s = "\<lparr>registry = js, pool = p, files = fs\<rparr>"
      have 1: "uuid4 f \<notin> dom (registry ?s)" using fresh by simp
      have 2: "upload_photo mx f (registry ?s, files ?s)
               = (Inr (?resp, (uuid4 f, ?path)), (js(uuid4 f \<mapsto> ?j), insert ?path fs))"
        using up by simp
      from upload_accepted[OF 1 2, of cfg]
      show "step cfg mx ?s \<lparr>registry = js(uuid4 f \<mapsto> ?j),
              pool = p(uuid4 f \<mapsto> Scheduled ?path), files = insert ?path fs\<rparr>"
        by simp
    qed
    show "\<exists>resp path js' fs' j.
          upload_photo mx f (js, fs) = (Inr (resp, (uuid4 f, path)), (js', fs'))
          \<and> ur_job_id resp = uuid4 f \<and> ur_status resp = ''pending''
          \<and> js' = js(uuid4 f \<mapsto> j)
          \<and> status j = ''pending'' \<and> upload_path j = path \<and> current_step j = None
          \<and> result j = None \<and> output_files j = None \<and> error j = None
          \<and> (uuid4 f \<notin> dom js \<longrightarrow>
                step cfg mx \<lparr>registry = js, pool = p, files = fs\<rparr>
                  \<lparr>registry = js', pool = p(uuid4 f \<mapsto> Scheduled path), files = fs'\<rparr>)"
      apply (rule exI[of _ ?resp], rule exI[of _ ?path], rule exI[of _ "js(uuid4 f \<mapsto> ?j)"],
             rule exI[of _ "insert ?path fs"], rule exI[of _ ?j])
      using up st by simp
  qed
qed


theorem upload_rejects_or_creates_pending_job_witness:
  "fst (upload_photo 10 too_large_upload (registry uploaded, files uploaded))
     = Inl (HTTPException 413 ''File too large'')
   \<and> fst (snd (upload_photo 10 too_large_upload (registry uploaded, files uploaded)))
     = registry uploaded
   \<and> get_status (fst (snd (upload_photo 10 too_large_upload (registry uploaded, files uploaded))))
        ''job-0002'' = Inl (HTTPException 404 ''Job not found'')
   \<and> fst (upload_photo 10 wrong_type_upload (registry uploaded, files uploaded))
     = Inl (HTTPException 400 ''Invalid file type'')
   \<and> (\<exists>resp path js' fs' j.
         upload_photo 10 example_upload (registry init, files init)
           = (Inr (resp, (''job-0001'', path)), (js', fs'))
         \<and> ur_job_id resp = ''job-0001'' \<and> ur_status resp = ''pending''
         \<and> js' ''job-0001'' = Some j \<and> status j = ''pending'' \<and> current_step j = None
         \<and> step example_config 10 init
              \<lparr>registry = js', pool = [''job-0001'' \<mapsto> Scheduled path], files = fs'\<rparr>)"
proof -
  note big = upload_rejects_or_creates_pending_job [where f = too_large_upload and mx = 10
      and js = "registry uploaded" and fs = "files uploaded" and cfg = example_config
      and p = "pool uploaded"]
  have size: "real (content_len too_large_upload) / (1024 * 1024) > of_int 10"
    by (simp add: too_large_upload_def example_upload_def)
  have fresh: "uuid4 too_large_upload \<notin> dom (registry uploaded)"
    and id2: "uuid4 too_large_upload = ''job-0002''"
    by (simp_all add: too_large_upload_def example_upload_def uploaded_def)
  from big size
  have a: "fst (upload_photo 10 too_large_upload (registry uploaded, files uploaded))
     = Inl (HTTPException 413 ''File too large'')"
    by blast
  from big a fresh
  have b: "fst (snd (upload_photo 10 too_large_upload (registry uploaded, files uploaded)))
     = registry uploaded"
    and c0: "get_status (fst (snd (upload_photo 10 too_large_upload (registry uploaded, files uploaded))))
        (uuid4 too_large_upload) = Inl (HTTPException 404 ''Job not found'')"
    by blast+
  from c0 have c: "get_status (fst (snd (upload_photo 10 too_large_upload (registry uploaded, files uploaded))))
        ''job-0002'' = Inl (HTTPException 404 ''Job not found'')"
    by (simp add: id2)
  note wrong = upload_rejects_or_creates_pending_job [where f = wrong_type_upload and mx = 10
      and js = "registry uploaded" and fs = "files uploaded" and cfg = example_config
      and p = "pool uploaded"]
  have ok_size: "\<not> real (content_len wrong_type_upload) / (1024 * 1024) > of_int 10"
    and wr: "write_error wrong_type_upload = None"
    and val: "validate_image_file True (saved wrong_type_upload) False True
                = (False, ''Invalid file type'')"
    by (simp_all add: wrong_type_upload_def example_upload_def validate_image_file_def
          ALLOWED_IMAGE_EXTENSIONS_def)
  from wrong ok_size wr val
  have d: "fst (upload_photo 10 wrong_type_upload (registry uploaded, files uploaded))
     = Inl (HTTPException 400 ''Invalid file type'')"
    by simp
  note good = upload_rejects_or_creates_pending_job [where f = example_upload and mx = 10
      and js = "registry init" and fs = "files init" and cfg = example_config
      and p = "pool init"]
  have g1: "\<not> real (content_len example_upload) / (1024 * 1024) > of_int 10"
    and g2: "write_error example_upload = None"
    and g3: "fst (validate_image_file True (saved example_upload) False True)"
    and g4: "uuid4 example_upload \<notin> dom (registry init)"
    and g5: "uuid4 example_upload = ''job-0001''"
    by (simp_all add: example_upload_def validate_image_file_def ALLOWED_IMAGE_EXTENSIONS_def
          MIN_IMAGE_DIMENSION_def MAX_IMAGE_DIMENSION_def init_def)
  from good g1 g2 g3 g4
  obtain resp path js' fs' j where e0:
    "upload_photo 10 example_upload (registry init, files init)
       = (Inr (resp, (uuid4 example_upload, path)), (js', fs'))"
    "ur_job_id resp = uuid4 example_upload" "ur_status resp = ''pending''"
    "js' = (registry init)(uuid4 example_upload \<mapsto> j)"
    "status j = ''pending''" "current_step j = None"
    "step example_config 10 \<lparr>registry = registry init, pool = pool init, files = files init\<rparr>
       \<lparr>registry = js', pool = (pool init)(uuid4 example_upload \<mapsto> Scheduled path), files = fs'\<rparr>"
    by blast
  have i: "\<lparr>registry = registry init, pool = pool init, files = files init\<rparr> = init"
    by (simp add: init_def)
  have pi: "(pool init)(''job-0001'' \<mapsto> Scheduled path) = [''job-0001'' \<mapsto> Scheduled path]"
    by (simp add: init_def)
  from e0 have e: "\<exists>resp path js' fs' j.
         upload_photo 10 example_upload (registry init, files init)
           = (Inr (resp, (''job-0001'', path)), (js', fs'))
         \<and> ur_job_id resp = ''job-0001'' \<and> ur_status resp = ''pending''
         \<and> js' ''job-0001'' = Some j \<and> status j = ''pending'' \<and> current_step j = None
         \<and> step example_config 10 init
              \<lparr>registry = js', pool = [''job-0001'' \<mapsto> Scheduled path], files = fs'\<rparr>"
    unfolding i g5 pi by auto
  from a b c d e show ?thesis by blast
qed

subsection \<open>Claims about the face check\<close>

text \<open>
  C9. For a readable image with positive height and width, when the face mesh reports no
  face or a first face with at least one landmark, the face check returns a result (it
  does not raise). The result has \<^verbatim>\<open>success = False\<close> exactly when no face is reported
  or the area of the bounding box of the landmarks, divided by the area of the image, is
  below 0.05 or above 0.9. A successful result carries the landmarks, the bounding box,
  the area ratio and the image dimensions. When the face check succeeds, the orchestrator
  calls the cartoonizer on the same input path it gave to the face check.
\<close>

theorem face_check_accepts_by_area_ratio:
  assumes "image_shape sc = Some (h, w)" and "0 < h" and "0 < w"
      and "case multi_face_landmarks sc of [] \<Rightarrow> True | face # others \<Rightarrow> face \<noteq> []"
  shows "\<exists>r. detect_face sc = Inr r
        \<and> (multi_face_landmarks sc = [] \<longrightarrow> \<not> fr_success r)
        \<and> (multi_face_landmarks sc \<noteq> [] \<longrightarrow>
             (\<exists>bb. calc_bounding_box (map (to_px w h) (hd (multi_face_landmarks sc))) = Inr bb
                \<and> fr_bounding_box r = Some bb
                \<and> (\<not> fr_success r \<longleftrightarrow> area_ratio bb w h < 0.05 \<or> area_ratio bb w h > 0.9)
                \<and> (fr_success r \<longrightarrow>
                      fr_landmarks r = Some (map (to_px w h) (hd (multi_face_landmarks sc)))
                      \<and> fr_face_area_ratio r = Some (area_ratio bb w h)
                      \<and> fr_image_dimensions r = Some (w, h))))
        \<and> (fr_success r \<and> face_detector env = face_outcome sc \<longrightarrow>
             take 2 (fst (snd (process_avatar cfg env cb input_path jid s)))
               = [DetectFaceCall input_path,
                  CartoonizeCall input_path (cartoon_path cfg jid) ''pixar''])"
proof (cases "multi_face_landmarks sc")
  case Nil
  then show ?thesis using assms(1)
    by (simp add: detect_face_def)
next
  case (Cons face others)
  with assms(4) have ne: "face \<noteq> []" by simp
  then obtain l ls where face: "face = l # ls" by (cases face) auto
  obtain bb where bb: "calc_bounding_box (map (to_px w h) face) = Inr bb"
    by (simp add: face calc_bounding_box_def py_min_def py_max_def)
  have wh: "w * h \<noteq> 0" using assms(2,3) by simp
  have "\<exists>r. detect_face sc = Inr r
     \<and> fr_bounding_box r = Some bb
     \<and> (\<not> fr_success r \<longleftrightarrow> area_ratio bb w h < 0.05 \<or> area_ratio bb w h > 0.9)
     \<and> (fr_success r \<longrightarrow> fr_landmarks r = Some (map (to_px w h) face)
         \<and> fr_face_area_ratio r = Some (area_ratio bb w h) \<and> fr_image_dimensions r = Some (w, h))
     \<and> (fr_success r \<longrightarrow> fr_message r = ''Face detected successfully!'')"
    using assms(1) Cons bb wh
    by (simp add: detect_face_def Let_def)
  then obtain r where r: "detect_face sc = Inr r"
     "fr_bounding_box r = Some bb"
     "\<not> fr_success r \<longleftrightarrow> area_ratio bb w h < 0.05 \<or> area_ratio bb w h > 0.9"
     "fr_success r \<longrightarrow> fr_landmarks r = Some (map (to_px w h) face)
         \<and> fr_face_area_ratio r = Some (area_ratio bb w h) \<and> fr_image_dimensions r = Some (w, h)"
     "fr_success r \<longrightarrow> fr_message r = ''Face detected successfully!''"
    by blast
  have pipe: "fr_success r \<and> face_detector env = face_outcome sc \<longrightarrow>
             take 2 (fst (snd (process_avatar cfg env cb input_path jid s)))
               = [DetectFaceCall input_path,
                  CartoonizeCall input_path (cartoon_path cfg jid) ''pixar'']"
    using r(1)
    by (auto simp: face_outcome_def pipeline_defs Let_def split: outcome.splits)
  from r bb pipe Cons show ?thesis by auto
qed


lemma good_scene_box:
  "calc_bounding_box (map (to_px 1024 768) (hd (multi_face_landmarks good_scene)))
     = Inr \<lparr>x_min = 256, y_min = 192, x_max = 768, y_max = 576, bb_width = 512, bb_height = 384\<rparr>"
  by (simp add: good_scene_def calc_bounding_box_def py_min_def py_max_def to_px_def py_int_def)

lemma small_face_scene_box:
  "calc_bounding_box (map (to_px 1024 768) (hd (multi_face_landmarks small_face_scene)))
     = Inr \<lparr>x_min = 512, y_min = 384, x_max = 640, y_max = 480, bb_width = 128, bb_height = 96\<rparr>"
  by (simp add: small_face_scene_def calc_bounding_box_def py_min_def py_max_def to_px_def py_int_def)

theorem face_check_accepts_by_area_ratio_witness:
  "image_shape good_scene = Some (768, 1024)
   \<and> (\<exists>r. detect_face good_scene = Inr r \<and> fr_success r
          \<and> fr_face_area_ratio r = Some (1 / 4) \<and> fr_image_dimensions r = Some (1024, 768))
   \<and> (\<exists>r. detect_face no_face_scene = Inr r \<and> \<not> fr_success r)
   \<and> (\<exists>r. detect_face small_face_scene = Inr r \<and> \<not> fr_success r)
   \<and> take 2 (fst (snd (process_avatar example_config
                (all_succeed\<lparr>face_detector := face_outcome good_scene\<rparr>)
                record_event example_path ''job-0001'' [])))
       = [DetectFaceCall example_path,
          CartoonizeCall example_path (cartoon_path example_config ''job-0001'') ''pixar'']"
proof -
  have shape: "image_shape good_scene = Some (768, 1024)"
    and faces: "case multi_face_landmarks good_scene of [] \<Rightarrow> True | face # others \<Rightarrow> face \<noteq> []"
    and some: "multi_face_landmarks good_scene \<noteq> []"
    by (simp_all add: good_scene_def)
  have env: "face_detector (all_succeed\<lparr>face_detector := face_outcome good_scene\<rparr>)
               = face_outcome good_scene"
    by simp
  from face_check_accepts_by_area_ratio [where sc = good_scene and h = 768 and w = 1024
         and env = "all_succeed\<lparr>face_detector := face_outcome good_scene\<rparr>"
         and cfg = example_config and cb = record_event and input_path = example_path
         and jid = "''job-0001''" and s = "[]", OF shape _ _ faces] some env
  obtain r bb where r: "detect_face good_scene = Inr r"
    "calc_bounding_box (map (to_px 1024 768) (hd (multi_face_landmarks good_scene))) = Inr bb"
    "\<not> fr_success r \<longleftrightarrow> area_ratio bb 1024 768 < 0.05 \<or> area_ratio bb 1024 768 > 0.9"
    "fr_success r \<longrightarrow> fr_face_area_ratio r = Some (area_ratio bb 1024 768)
        \<and> fr_image_dimensions r = Some (1024, 768)"
    "fr_success r \<longrightarrow>
       take 2 (fst (snd (process_avatar example_config
                (all_succeed\<lparr>face_detector := face_outcome good_scene\<rparr>)
                record_event example_path ''job-0001'' [])))
       = [DetectFaceCall example_path,
          CartoonizeCall example_path (cartoon_path example_config ''job-0001'') ''pixar'']"
    by auto
  from r(2) good_scene_box
  have "bb = \<lparr>x_min = 256, y_min = 192, x_max = 768, y_max = 576, bb_width = 512,
               bb_height = 384\<rparr>"
    by simp
  then have ratio: "area_ratio bb 1024 768 = 1 / 4"
    by (simp add: area_ratio_def)
  with r(3) have ok: "fr_success r" by simp
  with r ratio have a: "\<exists>r. detect_face good_scene = Inr r \<and> fr_success r
          \<and> fr_face_area_ratio r = Some (1 / 4) \<and> fr_image_dimensions r = Some (1024, 768)"
    by auto
  from r(5) ok have p: "take 2 (fst (snd (process_avatar example_config
                (all_succeed\<lparr>face_detector := face_outcome good_scene\<rparr>)
                record_event example_path ''job-0001'' [])))
       = [DetectFaceCall example_path,
          CartoonizeCall example_path (cartoon_path example_config ''job-0001'') ''pixar'']"
    by simp
  have shape0: "image_shape no_face_scene = Some (768, 1024)"
    and faces0: "case multi_face_landmarks no_face_scene of [] \<Rightarrow> True | face # others \<Rightarrow> face \<noteq> []"
    and none0: "multi_face_landmarks no_face_scene = []"
    by (simp_all add: no_face_scene_def)
  from face_check_accepts_by_area_ratio [where sc = no_face_scene and h = 768 and w = 1024
         and env = all_succeed and cfg = example_config and cb = record_event
         and input_path = example_path and jid = "''job-0001''" and s = "[]",
         OF shape0 _ _ faces0] none0
  have b: "\<exists>r. detect_face no_face_scene = Inr r \<and> \<not> fr_success r"
    by auto
  have shape1: "image_shape small_face_scene = Some (768, 1024)"
    and faces1: "case multi_face_landmarks small_face_scene of [] \<Rightarrow> True | face # others \<Rightarrow> face \<noteq> []"
    and some1: "multi_face_landmarks small_face_scene \<noteq> []"
    by (simp_all add: small_face_scene_def)
  from face_check_accepts_by_area_ratio [where sc = small_face_scene and h = 768 and w = 1024
         and env = all_succeed and cfg = example_config and cb = record_event
         and input_path = example_path and jid = "''job-0001''" and s = "[]",
         OF shape1 _ _ faces1] some1
  obtain r1 bb1 where r1: "detect_face small_face_scene = Inr r1"
    "calc_bounding_box (map (to_px 1024 768) (hd (multi_face_landmarks small_face_scene))) = Inr bb1"
    "\<not> fr_success r1 \<longleftrightarrow> area_ratio bb1 1024 768 < 0.05 \<or> area_ratio bb1 1024 768 > 0.9"
    by auto
  from r1(2) small_face_scene_box
  have "bb1 = \<lparr>x_min = 512, y_min = 384, x_max = 640, y_max = 480, bb_width = 128,
                bb_height = 96\<rparr>"
    by simp
  then have "area_ratio bb1 1024 768 = 1 / 64"
    by (simp add: area_ratio_def)
  with r1(3) have "\<not> fr_success r1" by simp
  with r1(1) have c: "\<exists>r. detect_face small_face_scene = Inr r \<and> \<not> fr_success r" by blast
  from shape a b c p show ?thesis by blast
qed

subsection \<open>Claims about the polling loop\<close>

lemma elapsed_before_mono:
  assumes "\<forall>k. 0 \<le> check_cost env k" and "\<forall>k. 0 \<le> sleep_lag env k" and "0 \<le> i"
  shows "k \<le> n \<Longrightarrow> elapsed_before env i k \<le> elapsed_before env i n"
proof (induction n)
  case 0
  then show ?case by simp
next
  case (Suc n)
  have step: "elapsed_before env i n \<le> elapsed_before env i (Suc n)"
    using assms(1)[rule_format, of n] assms(2)[rule_format, of n] assms(3) by simp
  show ?case
  proof (cases "k = Suc n")
    case True
    then show ?thesis by simp
  next
    case False
    with Suc.prems have "k \<le> n" by simp
    with Suc.IH step show ?thesis by linarith
  qed
qed

lemma rounds_snoc:
  "concat (replicate k [CheckStatus, Sleep i]) @ [CheckStatus, Sleep i]
     = concat (replicate (Suc k) [CheckStatus, Sleep i])"
  by (induction k) simp_all

lemma paced_rounds: "paced i (concat (replicate k [CheckStatus, Sleep i]) @ es) = paced i es"
  by (induction k) simp_all

lemma checks_rounds:
  "length (filter (\<lambda>e. e = CheckStatus) (concat (replicate k [CheckStatus, Sleep i]))) = k"
  by (induction k) simp_all

lemma poll_pending_step:
  assumes "\<not> now w - start > real_of_int timeout"
      and "sr_status (check_status env k) \<noteq> ''SUCCEEDED''"
      and "sr_status (check_status env k) \<noteq> ''FAILED''"
      and "0 \<le> i"
  shows "poll env tid out timeout i start k w
         = poll env tid out timeout i start (Suc k)
             (w\<lparr>now := now w + check_cost env k + real_of_int i + sleep_lag env k,
                trace := trace w @ [CheckStatus, Sleep i]\<rparr>)"
  using assms
  by (subst poll.simps) (simp add: Let_def do_check_def do_sleep_def)

lemma poll_timeout_now:
  assumes "now w - start > real_of_int timeout"
  shows "poll env tid out timeout i start k w = Some (Inr (timed_out tid), w)"
  using assms by (subst poll.simps) simp

lemma poll_success_now:
  assumes "\<not> now w - start > real_of_int timeout"
      and "sr_status (check_status env k) = ''SUCCEEDED''"
  shows "poll env tid out timeout i start k w
         = Some ((case download_error env (sr_model_url (check_status env k)) of
                    Some e \<Rightarrow> Inl e
                  | None \<Rightarrow> Inr (downloaded tid out (check_status env k))),
                 w\<lparr>now := now w + check_cost env k, trace := trace w @ [CheckStatus]\<rparr>)"
  using assms
  by (subst poll.simps) (simp add: Let_def do_check_def split: option.splits)


lemma poll_succeeds:
  assumes costs: "\<forall>k. 0 \<le> check_cost env k" "\<forall>k. 0 \<le> sleep_lag env k" and i: "0 \<le> i"
      and succ: "sr_status (check_status env N) = ''SUCCEEDED''"
      and time: "elapsed_before env i N \<le> real_of_int timeout"
  shows "d = N - k \<Longrightarrow> k \<le> N \<Longrightarrow>
         \<forall>j. k \<le> j \<and> j < N \<longrightarrow> sr_status (check_status env j) \<in> {''PENDING'', ''IN_PROGRESS''} \<Longrightarrow>
         now w - start = elapsed_before env i k \<Longrightarrow>
         trace w = concat (replicate k [CheckStatus, Sleep i]) \<Longrightarrow>
         \<exists>w'. poll env tid out timeout i start k w
                = Some ((case download_error env (sr_model_url (check_status env N)) of
                           Some e \<Rightarrow> Inl e
                         | None \<Rightarrow> Inr (downloaded tid out (check_status env N))), w')
              \<and> trace w' = concat (replicate N [CheckStatus, Sleep i]) @ [CheckStatus]"
proof (induction d arbitrary: k w)
  case 0
  then have kN: "k = N" by simp
  have "\<not> now w - start > real_of_int timeout" using 0(4) time kN by simp
  from poll_success_now[OF this, of env N, OF succ] 0(5) kN
  show ?case by simp
next
  case (Suc d)
  then have lt: "k < N" by simp
  have "elapsed_before env i k \<le> elapsed_before env i N"
    using elapsed_before_mono[OF costs i] lt by simp
  with Suc.prems(4) time have nt: "\<not> now w - start > real_of_int timeout" by simp
  from Suc.prems(3) lt have pend: "sr_status (check_status env k) \<in> {''PENDING'', ''IN_PROGRESS''}"
    by simp
  then have ns: "sr_status (check_status env k) \<noteq> ''SUCCEEDED''"
    and nf: "sr_status (check_status env k) \<noteq> ''FAILED''" by auto
  let ?w2 = "w\<lparr>now := now w + check_cost env k + real_of_int i + sleep_lag env k,
                trace := trace w @ [CheckStatus, Sleep i]\<rparr>"
  have st: "poll env tid out timeout i start k w = poll env tid out timeout i start (Suc k) ?w2"
    using nt ns nf i by (rule poll_pending_step)
  have 1: "d = N - Suc k" using Suc.prems(1) by simp
  have 2: "Suc k \<le> N" using lt by simp
  have 3: "\<forall>j. Suc k \<le> j \<and> j < N \<longrightarrow> sr_status (check_status env j) \<in> {''PENDING'', ''IN_PROGRESS''}"
    using Suc.prems(3) by simp
  have 4: "now ?w2 - start = elapsed_before env i (Suc k)" using Suc.prems(4) by simp
  have 5: "trace ?w2 = concat (replicate (Suc k) [CheckStatus, Sleep i])"
    using Suc.prems(5) rounds_snoc[of k i] by simp
  from Suc.IH[OF 1 2 3 4 5] st show ?case by simp
qed

lemma poll_times_out:
  assumes costs: "\<forall>k. 0 \<le> check_cost env k" "\<forall>k. 0 \<le> sleep_lag env k" and i: "0 < i"
      and never: "\<forall>j. sr_status (check_status env j) \<notin> {''SUCCEEDED'', ''FAILED''}"
  shows "real_of_int timeout - (now w - start) < real n * real_of_int i \<Longrightarrow>
         real k * real_of_int i \<le> now w - start \<Longrightarrow>
         int k * i \<le> timeout + i \<Longrightarrow>
         trace w = concat (replicate k [CheckStatus, Sleep i]) \<Longrightarrow>
         \<exists>k' w'. poll env tid out timeout i start k w = Some (Inr (timed_out tid), w')
              \<and> now w' - start > real_of_int timeout
              \<and> trace w' = concat (replicate k' [CheckStatus, Sleep i])
              \<and> int k' * i \<le> timeout + i"
proof (induction n arbitrary: k w)
  case 0
  then have "now w - start > real_of_int timeout" by simp
  from poll_timeout_now[OF this] this 0(3,4) show ?case by blast
next
  case (Suc n)
  show ?case
  proof (cases "now w - start > real_of_int timeout")
    case True
    from poll_timeout_now[OF this] this Suc.prems(3,4) show ?thesis by blast
  next
    case False
    from never have ns: "sr_status (check_status env k) \<noteq> ''SUCCEEDED''"
      and nf: "sr_status (check_status env k) \<noteq> ''FAILED''" by auto
    let ?w2 = "w\<lparr>now := now w + check_cost env k + real_of_int i + sleep_lag env k,
                  trace := trace w @ [CheckStatus, Sleep i]\<rparr>"
    have i0: "0 \<le> i" using i by simp
    have st: "poll env tid out timeout i start k w = poll env tid out timeout i start (Suc k) ?w2"
      using False ns nf i0 by (rule poll_pending_step)
    have c: "0 \<le> check_cost env k" and l: "0 \<le> sleep_lag env k" using costs by auto
    have 1: "real_of_int timeout - (now ?w2 - start) < real n * real_of_int i"
      using Suc.prems(1) c l by (simp add: algebra_simps)
    have 2: "real (Suc k) * real_of_int i \<le> now ?w2 - start"
      using Suc.prems(2) c l by (simp add: algebra_simps)
    have "real_of_int (int k * i) \<le> real_of_int timeout"
      using Suc.prems(2) False by simp
    then have "int k * i \<le> timeout" by linarith
    then have 3: "int (Suc k) * i \<le> timeout + i" by (simp add: algebra_simps)
    have 4: "trace ?w2 = concat (replicate (Suc k) [CheckStatus, Sleep i])"
      using Suc.prems(4) rounds_snoc[of k i] by simp
    from Suc.IH[OF 1 2 3 4] st show ?thesis by simp
  qed
qed


text \<open>
  C5. Let the image be read and the task be created, let no status check and no sleep
  take negative time, and let the timeout and the poll interval be positive.

  If the first \<open>N\<close> status checks answer \<^verbatim>\<open>PENDING\<close> or \<^verbatim>\<open>IN_PROGRESS\<close>, the next one
  answers \<^verbatim>\<open>SUCCEEDED\<close>, and the clock at the start of that check has not passed
  the timeout, then \<^verbatim>\<open>generate_3d_model\<close> returns after exactly \<open>N + 1\<close> status
  checks; it returns the success result carrying the model URL of that answer when the
  download of the model does not raise, and the error result of the exception when it
  does.

  If no status check ever answers \<^verbatim>\<open>SUCCEEDED\<close> or \<^verbatim>\<open>FAILED\<close>, then
  \<^verbatim>\<open>generate_3d_model\<close> returns the timeout result, at a time more than the timeout
  after the start, after at most \<open>timeout div poll_interval + 1\<close> status checks.

  In both cases a sleep of the poll interval follows every status check but the last.
\<close>

theorem bounded_polling_wait:
  assumes "0 < timeout" and "0 < poll_interval"
      and "\<forall>k. 0 \<le> check_cost env k" and "\<forall>k. 0 \<le> sleep_lag env k"
      and "read_error env = None" and "create_task env = TaskCreated tid"
      and "trace w = []"
  shows "((\<forall>j<N. sr_status (check_status env j) \<in> {''PENDING'', ''IN_PROGRESS''})
          \<and> sr_status (check_status env N) = ''SUCCEEDED''
          \<and> elapsed_before env poll_interval N \<le> real_of_int timeout
         \<longrightarrow> (\<exists>r w'. generate_3d_model env out timeout poll_interval w = Some (r, w')
               \<and> checks_made w' = N + 1 \<and> paced poll_interval (trace w')
               \<and> (download_error env (sr_model_url (check_status env N)) = None \<longrightarrow>
                     mr_success r \<and> mr_model_url r = sr_model_url (check_status env N)
                     \<and> mr_output_path r = Some out)
               \<and> (\<forall>e. download_error env (sr_model_url (check_status env N)) = Some e \<longrightarrow>
                     r = generation_error e)))
       \<and> ((\<forall>j. sr_status (check_status env j) \<notin> {''SUCCEEDED'', ''FAILED''})
         \<longrightarrow> (\<exists>w'. generate_3d_model env out timeout poll_interval w = Some (timed_out tid, w')
               \<and> \<not> mr_success (timed_out tid)
               \<and> now w' - now w > real_of_int timeout
               \<and> int (checks_made w') \<le> timeout div poll_interval + 1
               \<and> paced poll_interval (trace w')))"
proof (intro conjI impI)
  assume h: "(\<forall>j<N. sr_status (check_status env j) \<in> {''PENDING'', ''IN_PROGRESS''})
          \<and> sr_status (check_status env N) = ''SUCCEEDED''
          \<and> elapsed_before env poll_interval N \<le> real_of_int timeout"
  have i0: "0 \<le> poll_interval" using assms(2) by simp
  have pend: "\<forall>j. 0 \<le> j \<and> j < N \<longrightarrow> sr_status (check_status env j) \<in> {''PENDING'', ''IN_PROGRESS''}"
    using h by simp
  have start: "now w - now w = elapsed_before env poll_interval 0" by simp
  have tr: "trace w = concat (replicate 0 [CheckStatus, Sleep poll_interval])"
    using assms(7) by simp
  from poll_succeeds[OF assms(3,4) i0, of N timeout "N - 0" 0 w "now w" tid out]
       h pend start tr
  obtain w' where w': "poll env tid out timeout poll_interval (now w) 0 w
                = Some ((case download_error env (sr_model_url (check_status env N)) of
                           Some e \<Rightarrow> Inl e
                         | None \<Rightarrow> Inr (downloaded tid out (check_status env N))), w')"
     "trace w' = concat (replicate N [CheckStatus, Sleep poll_interval]) @ [CheckStatus]"
    by auto
  let ?r = "case download_error env (sr_model_url (check_status env N)) of
              Some e \<Rightarrow> generation_error e
            | None \<Rightarrow> downloaded tid out (check_status env N)"
  have gen: "generate_3d_model env out timeout poll_interval w = Some (?r, w')"
    using assms(5,6) w'(1) by (simp add: generate_3d_model_def split: option.splits)
  have n: "checks_made w' = N + 1"
    using w'(2) by (simp add: checks_made_def checks_rounds)
  have p: "paced poll_interval (trace w')"
    using w'(2) by (simp add: paced_rounds)
  have ok: "download_error env (sr_model_url (check_status env N)) = None \<longrightarrow>
              mr_success ?r \<and> mr_model_url ?r = sr_model_url (check_status env N)
              \<and> mr_output_path ?r = Some out"
    by (simp add: downloaded_def)
  have bad: "\<forall>e. download_error env (sr_model_url (check_status env N)) = Some e \<longrightarrow>
              ?r = generation_error e"
    by simp
  show "\<exists>r w'. generate_3d_model env out timeout poll_interval w = Some (r, w')
               \<and> checks_made w' = N + 1 \<and> paced poll_interval (trace w')
               \<and> (download_error env (sr_model_url (check_status env N)) = None \<longrightarrow>
                     mr_success r \<and> mr_model_url r = sr_model_url (check_status env N)
                     \<and> mr_output_path r = Some out)
               \<and> (\<forall>e. download_error env (sr_model_url (check_status env N)) = Some e \<longrightarrow>
                     r = generation_error e)"
    using gen n p ok bad by (intro exI[of _ ?r] exI[of _ w'] conjI)
next
  assume never: "\<forall>j. sr_status (check_status env j) \<notin> {''SUCCEEDED'', ''FAILED''}"
  let ?n = "nat (timeout div poll_interval) + 1"
  have m: "timeout mod poll_interval < poll_interval" using assms(2) by simp
  have "timeout = timeout div poll_interval * poll_interval + timeout mod poll_interval"
    by simp
  with m have lt: "timeout < timeout div poll_interval * poll_interval + poll_interval"
    by linarith
  have nn: "0 \<le> timeout div poll_interval"
    using assms(1,2) by (simp add: pos_imp_zdiv_nonneg_iff)
  then have q: "int ?n = timeout div poll_interval + 1" by simp
  have "timeout < int ?n * poll_interval"
    unfolding q using lt by (simp add: algebra_simps)
  then have r: "real_of_int timeout < real_of_int (int ?n * poll_interval)"
    by (simp only: of_int_less_iff)
  have e: "real_of_int (int ?n * poll_interval) = real ?n * real_of_int poll_interval"
    by (simp only: of_int_mult of_int_of_nat_eq)
  have 1: "real_of_int timeout - (now w - now w) < real ?n * real_of_int poll_interval"
    using r unfolding e by linarith
  have 2: "real 0 * real_of_int poll_interval \<le> now w - now w" by simp
  have 3: "int 0 * poll_interval \<le> timeout + poll_interval" using assms(1,2) by simp
  have 4: "trace w = concat (replicate 0 [CheckStatus, Sleep poll_interval])"
    using assms(7) by simp
  from poll_times_out[OF assms(3,4,2) never 1 2 3 4, of tid out]
  obtain k' w' where w': "poll env tid out timeout poll_interval (now w) 0 w
                            = Some (Inr (timed_out tid), w')"
      "now w' - now w > real_of_int timeout"
      "trace w' = concat (replicate k' [CheckStatus, Sleep poll_interval])"
      "int k' * poll_interval \<le> timeout + poll_interval"
    by blast
  have gen: "generate_3d_model env out timeout poll_interval w = Some (timed_out tid, w')"
    using assms(5,6) w'(1) by (simp add: generate_3d_model_def)
  have n: "checks_made w' = k'" using w'(3) by (simp add: checks_made_def checks_rounds)
  have "(int k' * poll_interval) div poll_interval \<le> (timeout + poll_interval) div poll_interval"
    using w'(4) assms(2) by (rule zdiv_mono1)
  then have b: "int (checks_made w') \<le> timeout div poll_interval + 1"
    using assms(2) n by simp
  have p: "paced poll_interval (trace w')"
    using w'(3) paced_rounds[of poll_interval k' "[]"] by simp
  from gen w'(2) b p
  show "\<exists>w'. generate_3d_model env out timeout poll_interval w = Some (timed_out tid, w')
               \<and> \<not> mr_success (timed_out tid)
               \<and> now w' - now w > real_of_int timeout
               \<and> int (checks_made w') \<le> timeout div poll_interval + 1
               \<and> paced poll_interval (trace w')"
    by (auto simp: timed_out_def)
qed


theorem bounded_polling_wait_witness:
  "(0::int) < 300 \<and> (0::int) < 5
   \<and> read_error succeeds_after_two = None
   \<and> create_task succeeds_after_two = TaskCreated ''task-42''
   \<and> trace at_start = []
   \<and> elapsed_before succeeds_after_two 5 2 = 12
   \<and> (\<exists>r w'. generate_3d_model succeeds_after_two ''model.glb'' 300 5 at_start = Some (r, w')
          \<and> mr_success r \<and> mr_model_url r = Some ''https://assets.example/model.glb''
          \<and> mr_output_path r = Some ''model.glb''
          \<and> checks_made w' = 3 \<and> paced 5 (trace w'))
   \<and> (\<exists>w'. generate_3d_model never_finishes ''model.glb'' 300 5 at_start
               = Some (timed_out ''task-42'', w')
          \<and> now w' - now at_start > 300 \<and> int (checks_made w') \<le> 61
          \<and> paced 5 (trace w'))
   \<and> (\<exists>w'. generate_3d_model download_fails ''model.glb'' 300 5 at_start
               = Some (generation_error ''404 Client Error'', w')
          \<and> checks_made w' = 3)"
proof -
  have pos: "(0::int) < 300" "(0::int) < 5" by simp_all
  have c1: "\<forall>k. 0 \<le> check_cost succeeds_after_two k"
    and l1: "\<forall>k. 0 \<le> sleep_lag succeeds_after_two k"
    and rd1: "read_error succeeds_after_two = None"
    and ct1: "create_task succeeds_after_two = TaskCreated ''task-42''"
    by (simp_all add: succeeds_after_two_def)
  have tr: "trace at_start = []" by (simp add: at_start_def)
  have el: "elapsed_before succeeds_after_two 5 2 = 12"
    by (simp add: numeral_2_eq_2 succeeds_after_two_def)
  have pend: "\<forall>j<2. sr_status (check_status succeeds_after_two j) \<in> {''PENDING'', ''IN_PROGRESS''}"
    and succ: "sr_status (check_status succeeds_after_two 2) = ''SUCCEEDED''"
    and url: "sr_model_url (check_status succeeds_after_two 2) = Some ''https://assets.example/model.glb''"
    and dl: "download_error succeeds_after_two (sr_model_url (check_status succeeds_after_two 2)) = None"
    by (simp_all add: succeeds_after_two_def)
  have tm: "elapsed_before succeeds_after_two 5 2 \<le> real_of_int 300" using el by simp
  have hypA: "(\<forall>j<2. sr_status (check_status succeeds_after_two j) \<in> {''PENDING'', ''IN_PROGRESS''})
          \<and> sr_status (check_status succeeds_after_two 2) = ''SUCCEEDED''
          \<and> elapsed_before succeeds_after_two 5 2 \<le> real_of_int 300"
    using pend succ tm by (intro conjI)
  note A = bounded_polling_wait [where env = succeeds_after_two and timeout = 300
         and poll_interval = 5 and tid = "''task-42''" and w = at_start and N = 2
         and out = "''model.glb''", OF pos c1 l1 rd1 ct1 tr, THEN conjunct1, THEN mp, OF hypA]
  then obtain r w' where rw:
     "generate_3d_model succeeds_after_two ''model.glb'' 300 5 at_start = Some (r, w')
      \<and> checks_made w' = 2 + 1 \<and> paced 5 (trace w')
      \<and> (download_error succeeds_after_two (sr_model_url (check_status succeeds_after_two 2)) = None
           \<longrightarrow> mr_success r \<and> mr_model_url r = sr_model_url (check_status succeeds_after_two 2)
            \<and> mr_output_path r = Some ''model.glb'')
      \<and> (\<forall>e. download_error succeeds_after_two (sr_model_url (check_status succeeds_after_two 2)) = Some e
           \<longrightarrow> r = generation_error e)"
    by (elim exE)
  from rw have g: "generate_3d_model succeeds_after_two ''model.glb'' 300 5 at_start = Some (r, w')"
    and n3: "checks_made w' = 3" and pc: "paced 5 (trace w')"
    by simp_all
  from rw dl have "mr_success r \<and> mr_model_url r = sr_model_url (check_status succeeds_after_two 2)
            \<and> mr_output_path r = Some ''model.glb''"
    by (elim conjE) (erule mp)
  with url have ok: "mr_success r" "mr_model_url r = Some ''https://assets.example/model.glb''"
     "mr_output_path r = Some ''model.glb''"
    by simp_all
  have a: "\<exists>r w'. generate_3d_model succeeds_after_two ''model.glb'' 300 5 at_start = Some (r, w')
          \<and> mr_success r \<and> mr_model_url r = Some ''https://assets.example/model.glb''
          \<and> mr_output_path r = Some ''model.glb''
          \<and> checks_made w' = 3 \<and> paced 5 (trace w')"
    using g ok n3 pc by (intro exI[of _ r] exI[of _ w'] conjI)
  have c2: "\<forall>k. 0 \<le> check_cost never_finishes k"
    and l2: "\<forall>k. 0 \<le> sleep_lag never_finishes k"
    and rd2: "read_error never_finishes = None"
    and ct2: "create_task never_finishes = TaskCreated ''task-42''"
    and never: "\<forall>j. sr_status (check_status never_finishes j) \<notin> {''SUCCEEDED'', ''FAILED''}"
    by (simp_all add: never_finishes_def succeeds_after_two_def)
  note B = bounded_polling_wait [where env = never_finishes and timeout = 300
         and poll_interval = 5 and tid = "''task-42''" and w = at_start and N = 0
         and out = "''model.glb''", OF pos c2 l2 rd2 ct2 tr, THEN conjunct2, THEN mp, OF never]
  then obtain w2 where w2: "generate_3d_model never_finishes ''model.glb'' 300 5 at_start
               = Some (timed_out ''task-42'', w2)
     \<and> \<not> mr_success (timed_out ''task-42'')
     \<and> now w2 - now at_start > real_of_int 300
     \<and> int (checks_made w2) \<le> 300 div 5 + 1 \<and> paced 5 (trace w2)"
    by (elim exE)
  then have b: "\<exists>w'. generate_3d_model never_finishes ''model.glb'' 300 5 at_start
               = Some (timed_out ''task-42'', w')
          \<and> now w' - now at_start > 300 \<and> int (checks_made w') \<le> 61
          \<and> paced 5 (trace w')"
    by (intro exI[of _ w2]) simp
  have c3: "\<forall>k. 0 \<le> check_cost download_fails k"
    and l3: "\<forall>k. 0 \<le> sleep_lag download_fails k"
    and rd3: "read_error download_fails = None"
    and ct3: "create_task download_fails = TaskCreated ''task-42''"
    and dl3: "download_error download_fails (sr_model_url (check_status download_fails 2))
                = Some ''404 Client Error''"
    by (simp_all add: download_fails_def succeeds_after_two_def)
  have hypC: "(\<forall>j<2. sr_status (check_status download_fails j) \<in> {''PENDING'', ''IN_PROGRESS''})
          \<and> sr_status (check_status download_fails 2) = ''SUCCEEDED''
          \<and> elapsed_before download_fails 5 2 \<le> real_of_int 300"
    by (simp add: download_fails_def succeeds_after_two_def numeral_2_eq_2)
  note C = bounded_polling_wait [where env = download_fails and timeout = 300
         and poll_interval = 5 and tid = "''task-42''" and w = at_start and N = 2
         and out = "''model.glb''", OF pos c3 l3 rd3 ct3 tr, THEN conjunct1, THEN mp, OF hypC]
  then obtain r3 w3 where rw3:
     "generate_3d_model download_fails ''model.glb'' 300 5 at_start = Some (r3, w3)
      \<and> checks_made w3 = 2 + 1 \<and> paced 5 (trace w3)
      \<and> (download_error download_fails (sr_model_url (check_status download_fails 2)) = None
           \<longrightarrow> mr_success r3 \<and> mr_model_url r3 = sr_model_url (check_status download_fails 2)
            \<and> mr_output_path r3 = Some ''model.glb'')
      \<and> (\<forall>e. download_error download_fails (sr_model_url (check_status download_fails 2)) = Some e
           \<longrightarrow> r3 = generation_error e)"
    by (elim exE)
  then have "\<forall>e. download_error download_fails (sr_model_url (check_status download_fails 2)) = Some e
           \<longrightarrow> r3 = generation_error e"
    by (elim conjE)
  with dl3 have r3: "r3 = generation_error ''404 Client Error''" by (elim allE) (erule mp)
  from rw3 have g3: "generate_3d_model download_fails ''model.glb'' 300 5 at_start = Some (r3, w3)"
    and n3': "checks_made w3 = 3"
    by simp_all
  have c: "\<exists>w'. generate_3d_model download_fails ''model.glb'' 300 5 at_start
               = Some (generation_error ''404 Client Error'', w')
          \<and> checks_made w' = 3"
    using g3 n3' unfolding r3 by (intro exI[of _ w3] conjI)
  from pos rd1 ct1 tr el a b c show ?thesis by (intro conjI)
qed

end
